theory Spec2Isabelle
  imports Main "HOL-Library.Word" "HOL-Library.AList" "HOL-Library.Sublist"
begin

section \<open>JavaScript strings\<close>

text \<open>
  A JavaScript string is a sequence of UTF-16 code units. String literals of the
  source are ASCII and are written with \<open>lit\<close>.
\<close>

type_synonym code_unit = "16 word"
type_synonym jsstring = "code_unit list"
type_synonym byte = "8 word"

definition lit :: "string \<Rightarrow> jsstring" where
  "lit s = map (\<lambda>c. of_nat (of_char c)) s"

definition SLASH :: code_unit where
  "SLASH = 0x2F"

definition BACKSLASH :: code_unit where
  "BACKSLASH = 0x5C"

text \<open>
  The code units removed by \<open>String.prototype.trim\<close> and matched by the class of white space in a
  regular expression: ECMAScript's WhiteSpace and LineTerminator.
\<close>

definition isWhiteSpace :: "code_unit \<Rightarrow> bool" where
  "isWhiteSpace c \<longleftrightarrow>
     c = 0x09 \<or> c = 0x0A \<or> c = 0x0B \<or> c = 0x0C \<or> c = 0x0D \<or> c = 0x20 \<or> c = 0xA0 \<or>
     c = 0x1680 \<or> (0x2000 \<le> c \<and> c \<le> 0x200A) \<or> c = 0x2028 \<or> c = 0x2029 \<or>
     c = 0x202F \<or> c = 0x205F \<or> c = 0x3000 \<or> c = 0xFEFF"

definition trim :: "jsstring \<Rightarrow> jsstring" where
  "trim s = rev (dropWhile isWhiteSpace (rev (dropWhile isWhiteSpace s)))"

text \<open>\<open>s.split(sep)\<close> for a one-character separator: never the empty list.\<close>

fun split :: "code_unit \<Rightarrow> jsstring \<Rightarrow> jsstring list" where
  "split sep [] = [[]]"
| "split sep (c # cs) =
     (if c = sep then [] # split sep cs
      else (case split sep cs of
              [] \<Rightarrow> [[c]]
            | w # ws \<Rightarrow> (c # w) # ws))"

text \<open>\<open>xs.join(sep)\<close> for a one-character separator.\<close>

fun join :: "code_unit \<Rightarrow> jsstring list \<Rightarrow> jsstring" where
  "join sep [] = []"
| "join sep [x] = x"
| "join sep (x # y # ys) = x @ sep # join sep (y # ys)"

definition startsWith :: "jsstring \<Rightarrow> jsstring \<Rightarrow> bool" where
  "startsWith s p \<longleftrightarrow> take (length p) s = p"

text \<open>\<open>s.includes(sub)\<close>: \<open>sub\<close> occurs somewhere in \<open>s\<close>.\<close>

fun js_includes :: "jsstring \<Rightarrow> jsstring \<Rightarrow> bool" where
  "js_includes [] sub = (sub = [])"
| "js_includes (c # cs) sub = (startsWith (c # cs) sub \<or> js_includes cs sub)"

text \<open>The decimal rendering of an integer, as a template literal prints a number.\<close>

definition digit :: "nat \<Rightarrow> code_unit" where
  "digit d = of_nat (48 + d)"

fun natToString :: "nat \<Rightarrow> jsstring" where
  "natToString n = (if n < 10 then [digit n] else natToString (n div 10) @ [digit (n mod 10)])"

declare natToString.simps [simp del]

definition numberToString :: "int \<Rightarrow> jsstring" where
  "numberToString i = (if i < 0 then lit ''-'' @ natToString (nat (- i)) else natToString (nat i))"

section \<open>Path normalisation (both workers)\<close>

definition DEFAULT_ENTRY_FILENAME :: jsstring where
  "DEFAULT_ENTRY_FILENAME = lit ''main.zig''"

definition LEGACY_APP_PREFIX :: jsstring where
  "LEGACY_APP_PREFIX = lit ''/app''"

text \<open>The global replacement of every backslash by a slash.\<close>

definition replaceBackslashes :: "jsstring \<Rightarrow> jsstring" where
  "replaceBackslashes s = map (\<lambda>c. if c = BACKSLASH then SLASH else c) s"

text \<open>
  The segments that \<open>normalizeEntryPath\<close> keeps, before they are joined: the value of
  its local \<open>segments\<close>. The argument is \<open>None\<close> for \<open>undefined\<close>.
\<close>

definition normalizedSegments :: "jsstring option \<Rightarrow> jsstring list" where
  "normalizedSegments path =
     (let trimmed = replaceBackslashes (trim (case path of None \<Rightarrow> [] | Some p \<Rightarrow> p));
          withoutLegacyPrefix =
            (if startsWith trimmed (LEGACY_APP_PREFIX @ lit ''/'')
             then drop (length LEGACY_APP_PREFIX + 1) trimmed
             else if startsWith trimmed LEGACY_APP_PREFIX
             then drop (length LEGACY_APP_PREFIX) trimmed
             else trimmed);
          cleaned = dropWhile (\<lambda>c. c = SLASH) withoutLegacyPrefix
      in filter (\<lambda>segment. length segment > 0 \<and> segment \<noteq> lit ''.'' \<and> segment \<noteq> lit ''..'')
           (map trim (split SLASH cleaned)))"

definition normalizeEntryPath :: "jsstring option \<Rightarrow> jsstring" where
  "normalizeEntryPath path =
     (let normalized = join SLASH (normalizedSegments path)
      in if length normalized > 0 then normalized else DEFAULT_ENTRY_FILENAME)"

definition toSegments :: "jsstring \<Rightarrow> jsstring list" where
  "toSegments path =
     filter (\<lambda>segment. length segment > 0 \<and> segment \<noteq> lit ''.'') (map trim (split SLASH path))"

section \<open>The virtual directory tree\<close>

text \<open>
  The two workers hold the same \<open>hydrateAppDirectory\<close>, \<open>writeFile\<close>,
  \<open>ensureDirectory\<close> and \<open>toSegments\<close>; \<open>getFileAtPath\<close> is the compile worker's.
\<close>

text \<open>
  The directory classes of the WASI shim: a file owns its bytes and a read-only flag, a
  directory owns a \<open>Map\<close> from names to nodes. The \<open>Map\<close> is an association list in
  insertion order: \<open>get\<close> is \<open>map_of\<close>, \<open>set\<close> is \<open>AList.update\<close> (an existing key
  keeps its place, a new key goes last) and \<open>delete\<close> is \<open>AList.delete\<close>.
\<close>

datatype inode = File "byte list" bool | Directory "(jsstring \<times> inode) list"

type_synonym dir_contents = "(jsstring \<times> inode) list"

text \<open>
  \<open>TextEncoder.encode\<close>: the UTF-8 encoding of a string of UTF-16 code units. A
  surrogate pair is one code point, an unpaired surrogate is encoded as U+FFFD.
\<close>

definition isHighSurrogate :: "code_unit \<Rightarrow> bool" where
  "isHighSurrogate c \<longleftrightarrow> 0xD800 \<le> c \<and> c \<le> 0xDBFF"

definition isLowSurrogate :: "code_unit \<Rightarrow> bool" where
  "isLowSurrogate c \<longleftrightarrow> 0xDC00 \<le> c \<and> c \<le> 0xDFFF"

definition encodeCodePoint :: "nat \<Rightarrow> byte list" where
  "encodeCodePoint n =
     (if n < 0x80 then [of_nat n]
      else if n < 0x800 then [of_nat (0xC0 + n div 0x40), of_nat (0x80 + n mod 0x40)]
      else if n < 0x10000 then
        [of_nat (0xE0 + n div 0x1000), of_nat (0x80 + (n div 0x40) mod 0x40),
         of_nat (0x80 + n mod 0x40)]
      else
        [of_nat (0xF0 + n div 0x40000), of_nat (0x80 + (n div 0x1000) mod 0x40),
         of_nat (0x80 + (n div 0x40) mod 0x40), of_nat (0x80 + n mod 0x40)])"

definition scalarValue :: "code_unit \<Rightarrow> nat" where
  "scalarValue c = (if isHighSurrogate c \<or> isLowSurrogate c then 0xFFFD else unat c)"

fun textEncoder_encode :: "jsstring \<Rightarrow> byte list" where
  "textEncoder_encode [] = []"
| "textEncoder_encode [c] = encodeCodePoint (scalarValue c)"
| "textEncoder_encode (c # d # rest) =
     (if isHighSurrogate c \<and> isLowSurrogate d
      then encodeCodePoint (0x10000 + (unat c - 0xD800) * 0x400 + (unat d - 0xDC00))
             @ textEncoder_encode rest
      else encodeCodePoint (scalarValue c) @ textEncoder_encode (d # rest))"

record PlaygroundFilePayload =
  path :: jsstring
  contents :: jsstring
  readOnly :: "bool option"

text \<open>\<open>Boolean(file.readOnly)\<close> of an optional flag.\<close>

definition Boolean :: "bool option \<Rightarrow> bool" where
  "Boolean flag = (case flag of None \<Rightarrow> False | Some b \<Rightarrow> b)"

text \<open>
  \<open>ensureDirectory\<close> walks the segments from \<open>current\<close> and mutates the tree in place.
  The model returns the tree after the walk; the directory that the source returns is the
  one at the end of the same segments in that tree.
\<close>

fun ensureDirectory :: "dir_contents \<Rightarrow> jsstring list \<Rightarrow> dir_contents" where
  "ensureDirectory current [] = current"
| "ensureDirectory current (segment # rest) =
     (case map_of current segment of
        Some (Directory existing) \<Rightarrow>
          AList.update segment (Directory (ensureDirectory existing rest)) current
      | Some (File fileData fileReadonly) \<Rightarrow>
          AList.update segment (Directory (ensureDirectory [] rest)) (AList.delete segment current)
      | None \<Rightarrow>
          AList.update segment (Directory (ensureDirectory [] rest)) current)"

text \<open>
  \<open>parent.contents.set(filename, file)\<close>, where \<open>parent\<close> is the directory at the end
  of the segments (it exists after \<open>ensureDirectory\<close>).
\<close>

fun setInDirectory :: "dir_contents \<Rightarrow> jsstring list \<Rightarrow> jsstring \<Rightarrow> inode \<Rightarrow> dir_contents" where
  "setInDirectory current [] filename file = AList.update filename file current"
| "setInDirectory current (segment # rest) filename file =
     (case map_of current segment of
        Some (Directory existing) \<Rightarrow>
          AList.update segment (Directory (setInDirectory existing rest filename file)) current
      | Some (File fileData fileReadonly) \<Rightarrow> current
      | None \<Rightarrow> current)"

definition writeFile :: "dir_contents \<Rightarrow> jsstring \<Rightarrow> jsstring \<Rightarrow> bool \<Rightarrow> dir_contents" where
  "writeFile root relativePath fileContents fileReadOnly =
     (let segments = toSegments relativePath
      in if length segments = 0 then root
         else (let filename = last segments;
                   parentSegments = butlast segments
               in setInDirectory (ensureDirectory root parentSegments) parentSegments filename
                    (File (textEncoder_encode fileContents) fileReadOnly)))"

definition hydrateAppDirectory :: "PlaygroundFilePayload list \<Rightarrow> dir_contents" where
  "hydrateAppDirectory fileList =
     foldl (\<lambda>directory file.
              (let relativePath = normalizeEntryPath (Some (path file))
               in if relativePath = [] then directory
                  else writeFile directory relativePath (contents file) (Boolean (readOnly file))))
       [] fileList"

fun getFileAtSegments :: "dir_contents \<Rightarrow> jsstring list \<Rightarrow> inode option" where
  "getFileAtSegments current [] = None"
| "getFileAtSegments current (segment # rest) =
     (case map_of current segment of
        None \<Rightarrow> None
      | Some entry \<Rightarrow>
          (if rest = [] then (case entry of File fileData fileReadonly \<Rightarrow> Some entry | Directory sub \<Rightarrow> None)
           else (case entry of
                   Directory sub \<Rightarrow> getFileAtSegments sub rest
                 | File fileData fileReadonly \<Rightarrow> None)))"

definition getFileAtPath :: "dir_contents \<Rightarrow> jsstring \<Rightarrow> inode option" where
  "getFileAtPath root relativePath = getFileAtSegments root (toSegments relativePath)"

definition EMIT_WASM_PATH :: jsstring where
  "EMIT_WASM_PATH = lit ''main.wasm''"

definition extractWasmArtifact :: "dir_contents \<Rightarrow> byte list option" where
  "extractWasmArtifact appDirectory =
     (case getFileAtPath appDirectory EMIT_WASM_PATH of
        Some (File fileData fileReadonly) \<Rightarrow> Some fileData
      | Some (Directory sub) \<Rightarrow> None
      | None \<Rightarrow> None)"

text \<open>Every directory of a tree holds each name once.\<close>

fun uniqueNames :: "inode \<Rightarrow> bool" where
  "uniqueNames (File fileData fileReadonly) = True"
| "uniqueNames (Directory entries) =
     (distinct (map fst entries) \<and> list_all (\<lambda>entry. uniqueNames (snd entry)) entries)"

text \<open>The segments under which \<open>writeFile\<close> stores an entry.\<close>

definition entrySegments :: "PlaygroundFilePayload \<Rightarrow> jsstring list" where
  "entrySegments file = toSegments (normalizeEntryPath (Some (path file)))"

text \<open>
  What \<open>writeFile\<close> does to the tree once the segments are known: \<open>ensureDirectory\<close> on
  the parent segments, then the \<open>set\<close> in the directory it returns.
\<close>

definition writeSegments :: "dir_contents \<Rightarrow> jsstring list \<Rightarrow> jsstring \<Rightarrow> inode \<Rightarrow> dir_contents" where
  "writeSegments root parentSegments filename file =
     setInDirectory (ensureDirectory root parentSegments) parentSegments filename file"

text \<open>One iteration of the loop of \<open>hydrateAppDirectory\<close>, in terms of the segments.\<close>

definition hydrateStep :: "dir_contents \<Rightarrow> PlaygroundFilePayload \<Rightarrow> dir_contents" where
  "hydrateStep directory file =
     writeSegments directory (butlast (entrySegments file)) (last (entrySegments file))
       (File (textEncoder_encode (contents file)) (Boolean (readOnly file)))"

section \<open>Messages\<close>

text \<open>
  The messages a worker posts to the host page. The fields are in the order of the
  source's object literals: \<open>compile-success\<close> has wasm, stdout, stderr, durationMs;
  \<open>compile-error\<close> has stdout, stderr, durationMs, message; \<open>fatal-error\<close> has message;
  \<open>run-success\<close> has stdout, stderr, exitCode, durationMs; \<open>run-error\<close> has message,
  stderr and an optional durationMs.
\<close>

datatype response =
    CompileSuccess "byte list" jsstring jsstring nat
  | CompileError jsstring jsstring nat jsstring
  | FatalError jsstring
  | RunSuccess jsstring jsstring int nat
  | RunError jsstring jsstring "nat option"

fun isFatalError :: "response \<Rightarrow> bool" where
  "isFatalError (FatalError message) = True"
| "isFatalError other = False"

fun isErrorResponse :: "response \<Rightarrow> bool" where
  "isErrorResponse (CompileError out err durationMs message) = True"
| "isErrorResponse (RunError message err durationMs) = True"
| "isErrorResponse other = False"

definition createCompileErrorResponse :: "jsstring \<Rightarrow> jsstring \<Rightarrow> jsstring \<Rightarrow> nat \<Rightarrow> response" where
  "createCompileErrorResponse message out err durationMs = CompileError out err durationMs message"

text \<open>
  A thrown value: an \<open>Error\<close> object with its name, message and stack, or any other value,
  given by its \<open>String(error)\<close>.
\<close>

datatype thrown = ErrorObject jsstring jsstring jsstring | NonError jsstring

text \<open>The test that the source writes out in each of its five fault paths.\<close>

definition isStackOverflow :: "thrown \<Rightarrow> bool" where
  "isStackOverflow error =
     (case error of
        ErrorObject name message stack \<Rightarrow>
          js_includes message (lit ''recursion'') \<or> js_includes message (lit ''call stack'') \<or>
          name = lit ''RangeError'' \<or> name = lit ''InternalError''
      | NonError text \<Rightarrow> False)"

text \<open>The message of the catch blocks of \<open>runCompilation\<close> and \<open>executeProgram\<close>.\<close>

definition messageWithStack :: "thrown \<Rightarrow> jsstring" where
  "messageWithStack error =
     (case error of
        ErrorObject name message stack \<Rightarrow> message @ [0x0A] @ stack
      | NonError text \<Rightarrow> text)"

section \<open>The guest programs\<close>

text \<open>
  The compiler and the compiled program are opaque WASI programs. One run of \<open>wasi.start\<close>
  returns an exit code or throws, has written its standard output and error to the two
  buffering consoles, and leaves the workspace directory as the guest changed it.
\<close>

datatype start_result = Exited int | Threw thrown

record guest_run =
  startResult :: start_result
  stdoutText :: jsstring
  stderrText :: jsstring
  directoryAfter :: dir_contents

datatype wasm_module = WasmModule "byte list"

section \<open>The compile worker\<close>

datatype optimize_mode = Debug | ReleaseFast | ReleaseSafe | ReleaseSmall

record ZigCompileRequest =
  entryPath :: jsstring
  files :: "PlaygroundFilePayload list"
  optimize :: "optimize_mode option"

text \<open>
  The collaborators of one compilation: the standard-library directory or the error of
  its hydration, the fetched and compiled compiler module or the error of the fetch, the
  error of \<open>WebAssembly.instantiate\<close> if any, the compiler as a function of its argument
  vector and of the workspace and standard-library mounts, and the measured duration.
\<close>

record compile_env =
  getZigStdlibDirectory :: "thrown + dir_contents"
  fetchAndCompileZig :: "thrown + wasm_module"
  zigInstantiate :: "wasm_module \<Rightarrow> thrown option"
  zigStart :: "wasm_module \<Rightarrow> jsstring list \<Rightarrow> dir_contents \<Rightarrow> dir_contents \<Rightarrow> guest_run"
  compileElapsed :: nat

definition buildZigArgs :: "jsstring \<Rightarrow> optimize_mode option \<Rightarrow> jsstring list" where
  "buildZigArgs entry optimizeMode =
     [lit ''zig.wasm'', lit ''build-exe'', entry, lit ''-fno-llvm'', lit ''-fno-lld'',
      lit ''-fno-ubsan-rt'', lit ''-fno-entry'']"

text \<open>\<open>loadZigModule\<close> on the module cache: the result and the cache afterwards.\<close>

definition loadZigModule ::
  "compile_env \<Rightarrow> wasm_module option \<Rightarrow> (thrown + wasm_module) \<times> wasm_module option" where
  "loadZigModule env cache =
     (case cache of
        Some cached \<Rightarrow> (Inr cached, cache)
      | None \<Rightarrow>
          (case fetchAndCompileZig env of
             Inl error \<Rightarrow> (Inl error, None)
           | Inr compiled \<Rightarrow> (Inr compiled, Some compiled)))"

definition instantiateZig ::
  "compile_env \<Rightarrow> wasm_module option \<Rightarrow> (thrown + wasm_module) \<times> wasm_module option" where
  "instantiateZig env cache =
     (case loadZigModule env cache of
        (Inl error, cache') \<Rightarrow> (Inl error, cache')
      | (Inr wasmModule, cache') \<Rightarrow>
          (case zigInstantiate env wasmModule of
             Some error \<Rightarrow> (Inl error, cache')
           | None \<Rightarrow> (Inr wasmModule, cache')))"

text \<open>
  \<open>runCompilation\<close>: the response and the module cache afterwards. Every throw inside its
  \<open>try\<close> block becomes a compile-error response.
\<close>

definition runCompilation ::
  "compile_env \<Rightarrow> wasm_module option \<Rightarrow> ZigCompileRequest \<Rightarrow> response \<times> wasm_module option" where
  "runCompilation env cache request =
     (let entry = normalizeEntryPath (Some (entryPath request));
          appDirectory = hydrateAppDirectory (files request)
      in case getZigStdlibDirectory env of
           Inl error \<Rightarrow>
             (createCompileErrorResponse (messageWithStack error) [] [] (compileElapsed env), cache)
         | Inr stdlibDirectory \<Rightarrow>
             (let args = buildZigArgs entry (optimize request)
              in case instantiateZig env cache of
                   (Inl error, cache') \<Rightarrow>
                     (createCompileErrorResponse (messageWithStack error) [] []
                        (compileElapsed env), cache')
                 | (Inr zigInstance, cache') \<Rightarrow>
                     (let run = zigStart env zigInstance args appDirectory stdlibDirectory;
                          durationMs = compileElapsed env;
                          outText = stdoutText run;
                          errText = stderrText run
                      in case startResult run of
                           Threw error \<Rightarrow>
                             (createCompileErrorResponse (messageWithStack error) outText errText
                                durationMs, cache')
                         | Exited exitCode \<Rightarrow>
                             (if exitCode \<noteq> 0
                              then (createCompileErrorResponse
                                      (lit ''Zig exited with code '' @ numberToString exitCode)
                                      outText errText durationMs, cache')
                              else (case extractWasmArtifact (directoryAfter run) of
                                      None \<Rightarrow>
                                        (createCompileErrorResponse
                                           (lit ''Compiled artifact missing at main.wasm'')
                                           outText errText durationMs, cache')
                                    | Some wasmBuffer \<Rightarrow>
                                        (CompileSuccess wasmBuffer outText errText durationMs,
                                         cache'))))))"

text \<open>
  The state of the compile worker: the module-level variables of the source, the messages
  posted so far, and two histories that the source does not keep: the requests whose
  \<open>handleCompile\<close> has begun and not finished, and all requests for which it ever began.
\<close>

record 'r zig_worker =
  zigModulePromise :: "wasm_module option"
  isCompiling :: bool
  compilationQueue :: "'r list"
  compilationCount :: nat
  zigPosted :: "response list"
  zigInFlight :: "'r list"
  zigExecutions :: "'r list"

definition zig_initial :: "'r zig_worker" where
  "zig_initial =
     \<lparr>zigModulePromise = None, isCompiling = False, compilationQueue = [], compilationCount = 0,
      zigPosted = [], zigInFlight = [], zigExecutions = []\<rparr>"

definition MAX_COMPILATIONS_BEFORE_REFRESH :: nat where
  "MAX_COMPILATIONS_BEFORE_REFRESH = 50"

definition zig_postMessage :: "response \<Rightarrow> 'r zig_worker \<Rightarrow> 'r zig_worker" where
  "zig_postMessage message s = s\<lparr>zigPosted := zigPosted s @ [message]\<rparr>"

definition postCompileError :: "jsstring \<Rightarrow> 'r zig_worker \<Rightarrow> 'r zig_worker" where
  "postCompileError message s = zig_postMessage (createCompileErrorResponse message [] [] 0) s"

text \<open>\<open>handleCompile\<close> up to its \<open>await\<close>.\<close>

definition handleCompile_begin :: "'r \<Rightarrow> 'r zig_worker \<Rightarrow> 'r zig_worker" where
  "handleCompile_begin request s =
     (let s1 = s\<lparr>isCompiling := True, zigInFlight := zigInFlight s @ [request],
                  zigExecutions := zigExecutions s @ [request]\<rparr>;
          s2 = s1\<lparr>compilationCount := compilationCount s1 + 1\<rparr>
      in if compilationCount s2 \<ge> MAX_COMPILATIONS_BEFORE_REFRESH
         then s2\<lparr>zigModulePromise := None, compilationCount := 0\<rparr>
         else s2)"

definition COMPILER_STACK_OVERFLOW_MESSAGE :: jsstring where
  "COMPILER_STACK_OVERFLOW_MESSAGE =
     lit ''Compiler stack overflow. This usually means:'' @ [0x0A] @
     lit ''1. Your code has deep comptime recursion or circular type dependencies'' @ [0x0A] @
     lit ''2. Try simplifying generic types or reducing comptime complexity'' @ [0x0A] @
     lit ''3. If this persists, try refreshing the page to reset the compiler''"

text \<open>
  \<open>handleCompile\<close> after its \<open>await\<close>: the awaited \<open>runCompilation\<close> gave a response, or
  something was thrown inside the \<open>try\<close>; then the \<open>finally\<close>.
\<close>

definition handleCompile_end :: "thrown + response \<Rightarrow> 'r zig_worker \<Rightarrow> 'r zig_worker" where
  "handleCompile_end outcome s =
     (let s1 =
        (case outcome of
           Inr response \<Rightarrow> zig_postMessage response s
         | Inl error \<Rightarrow>
             (let message = (case error of
                               ErrorObject name text stack \<Rightarrow> text
                             | NonError text \<Rightarrow> lit ''Unknown compile failure'')
              in if isStackOverflow error
                 then postCompileError COMPILER_STACK_OVERFLOW_MESSAGE
                        (zig_postMessage (FatalError (lit ''stack-overflow''))
                           (s\<lparr>zigModulePromise := None, compilationCount := 0\<rparr>))
                 else postCompileError message s))
      in s1\<lparr>isCompiling := False, zigInFlight := tl (zigInFlight s1)\<rparr>)"

definition zig_processQueue :: "'r zig_worker \<Rightarrow> 'r zig_worker" where
  "zig_processQueue s =
     (if isCompiling s then s
      else (case rev (compilationQueue s) of
              [] \<Rightarrow> s
            | request # older \<Rightarrow> handleCompile_begin request (s\<lparr>compilationQueue := []\<rparr>)))"

text \<open>The rest of \<open>processQueue\<close> after \<open>await handleCompile(request)\<close>.\<close>

definition zig_processQueue_resume :: "'r zig_worker \<Rightarrow> 'r zig_worker" where
  "zig_processQueue_resume s =
     (if length (compilationQueue s) > 0 then zig_processQueue s else s)"

text \<open>One whole \<open>handleCompile\<close> with no other event in between.\<close>

definition handleCompile ::
  "compile_env \<Rightarrow> ZigCompileRequest \<Rightarrow> ZigCompileRequest zig_worker \<Rightarrow> ZigCompileRequest zig_worker" where
  "handleCompile env request s =
     (let s1 = handleCompile_begin request s;
          (response, cache) = runCompilation env (zigModulePromise s1) request
      in handleCompile_end (Inr response) (s1\<lparr>zigModulePromise := cache\<rparr>))"

subsection \<open>The fault handlers of the compile worker\<close>

definition GLOBAL_STACK_OVERFLOW_MESSAGE :: jsstring where
  "GLOBAL_STACK_OVERFLOW_MESSAGE =
     [0x26A0, 0xFE0F] @ lit '' WASM Compiler Stack Overflow'' @ [0x0A, 0x0A] @
     lit ''The Zig compiler running in your browser hit a stack limit during semantic analysis.''
       @ [0x0A, 0x0A] @
     lit ''**This is a known limitation of the browser playground.**'' @ [0x0A, 0x0A] @
     lit ''Possible causes:'' @ [0x0A] @
     [0x2022] @ lit '' Standard library code triggering deep analysis (not your fault!)'' @ [0x0A] @
     [0x2022] @ lit '' Complex comptime recursion or generic types'' @ [0x0A] @
     [0x2022] @ lit '' Circular type dependencies'' @ [0x0A, 0x0A] @
     lit ''Technical: The WASM Zig compiler binary has a fixed stack size that cannot be increased at runtime.''"

text \<open>The listener of \<open>error\<close> events, applied to \<open>event.error\<close>.\<close>

definition zig_onError :: "thrown \<Rightarrow> 'r zig_worker \<Rightarrow> 'r zig_worker" where
  "zig_onError error s =
     (if isStackOverflow error
      then (let s1 = postCompileError GLOBAL_STACK_OVERFLOW_MESSAGE s;
                s2 = s1\<lparr>zigModulePromise := None, compilationCount := 0, isCompiling := False\<rparr>
            in zig_postMessage (FatalError (lit ''stack-overflow'')) s2)
      else s)"

text \<open>The listener of \<open>unhandledrejection\<close> events, applied to \<open>event.reason\<close>.\<close>

definition zig_onUnhandledRejection :: "thrown \<Rightarrow> 'r zig_worker \<Rightarrow> 'r zig_worker" where
  "zig_onUnhandledRejection error s =
     (if isStackOverflow error
      then (let s1 = postCompileError
                       (lit ''Compiler encountered a recursion error during async operation'') s;
                s2 = s1\<lparr>zigModulePromise := None, compilationCount := 0, isCompiling := False\<rparr>
            in zig_postMessage (FatalError (lit ''stack-overflow'')) s2)
      else s)"

definition zig_onMessageError :: "'r zig_worker \<Rightarrow> 'r zig_worker" where
  "zig_onMessageError s =
     postCompileError (lit ''zig-worker failed to deserialize the incoming message payload'') s"

section \<open>Inbound messages\<close>

text \<open>
  The data of a message event, as the structured clone delivers it. The guards of the
  workers never look at the value of a number, so an integer stands for it; a typed array
  is a binary value that is not an \<open>ArrayBuffer\<close>. Any other cloneable object has
  neither a \<open>files\<close> nor a \<open>wasm\<close> property and is rejected like an object without
  these fields.
\<close>

datatype jsval =
    JUndefined
  | JNull
  | JBool bool
  | JNumber int
  | JString jsstring
  | JArray "jsval list"
  | JObject "(jsstring \<times> jsval) list"
  | JArrayBuffer "byte list"
  | JUint8Array "byte list"

fun truthy :: "jsval \<Rightarrow> bool" where
  "truthy JUndefined = False"
| "truthy JNull = False"
| "truthy (JBool b) = b"
| "truthy (JNumber n) = (n \<noteq> 0)"
| "truthy (JString text) = (text \<noteq> [])"
| "truthy other = True"

text \<open>\<open>typeof v === 'object'\<close>\<close>

fun typeofObject :: "jsval \<Rightarrow> bool" where
  "typeofObject JNull = True"
| "typeofObject (JArray items) = True"
| "typeofObject (JObject props) = True"
| "typeofObject (JArrayBuffer bytes) = True"
| "typeofObject (JUint8Array bytes) = True"
| "typeofObject other = False"

text \<open>
  The property reads of the guards (\<open>type\<close>, \<open>files\<close>, \<open>entryPath\<close>, \<open>wasm\<close>): the field of
  a plain object; none of these names is a property of an array or of a binary value.
\<close>

fun getProperty :: "jsval \<Rightarrow> jsstring \<Rightarrow> jsval" where
  "getProperty (JObject props) name =
     (case map_of props name of None \<Rightarrow> JUndefined | Some v \<Rightarrow> v)"
| "getProperty other name = JUndefined"

fun isArray :: "jsval \<Rightarrow> bool" where
  "isArray (JArray items) = True"
| "isArray other = False"

fun isString :: "jsval \<Rightarrow> bool" where
  "isString (JString text) = True"
| "isString other = False"

fun isArrayBuffer :: "jsval \<Rightarrow> bool" where
  "isArrayBuffer (JArrayBuffer bytes) = True"
| "isArrayBuffer other = False"

definition isCompileRequest :: "jsval \<Rightarrow> bool" where
  "isCompileRequest input =
     (if \<not> truthy input \<or> \<not> typeofObject input then False
      else getProperty input (lit ''type'') = JString (lit ''compile'') \<and>
           isArray (getProperty input (lit ''files'')) \<and>
           isString (getProperty input (lit ''entryPath'')))"

definition isRunnerRequest :: "jsval \<Rightarrow> bool" where
  "isRunnerRequest input =
     (if \<not> truthy input \<or> \<not> typeofObject input then False
      else getProperty input (lit ''type'') = JString (lit ''run'') \<and>
           isArrayBuffer (getProperty input (lit ''wasm'')))"

text \<open>The listener of \<open>message\<close> events of the compile worker, applied to \<open>event.data\<close>.\<close>

definition zig_onMessage :: "jsval \<Rightarrow> jsval zig_worker \<Rightarrow> jsval zig_worker" where
  "zig_onMessage payload s =
     (if \<not> isCompileRequest payload
      then postCompileError (lit ''Invalid message for zig-worker (expected compile request)'') s
      else zig_processQueue (s\<lparr>compilationQueue := compilationQueue s @ [payload]\<rparr>))"

text \<open>
  The events of the compile worker, one for each listener the source registers and one
  for the end of an \<open>await\<close>: a message arrives; the \<open>handleCompile\<close> that is in flight
  finishes, with the module cache as the compilation left it and with the response of
  \<open>runCompilation\<close> or with what was thrown; an \<open>error\<close> event carries an uncaught error;
  an \<open>unhandledrejection\<close> event carries the reason of a rejected promise; a
  \<open>messageerror\<close> event reports a message that could not be deserialised.
\<close>

datatype zig_event =
    ZigMessage jsval
  | ZigFinished "wasm_module option" "thrown + response"
  | ZigErrorEvent thrown
  | ZigRejectionEvent thrown
  | ZigMessageErrorEvent

definition zig_onFinished ::
  "wasm_module option \<Rightarrow> thrown + response \<Rightarrow> 'r zig_worker \<Rightarrow> 'r zig_worker" where
  "zig_onFinished cache outcome s =
     (if zigInFlight s = [] then s
      else zig_processQueue_resume (handleCompile_end outcome (s\<lparr>zigModulePromise := cache\<rparr>)))"

fun zig_step :: "jsval zig_worker \<Rightarrow> zig_event \<Rightarrow> jsval zig_worker" where
  "zig_step s (ZigMessage payload) = zig_onMessage payload s"
| "zig_step s (ZigFinished cache outcome) = zig_onFinished cache outcome s"
| "zig_step s (ZigErrorEvent error) = zig_onError error s"
| "zig_step s (ZigRejectionEvent error) = zig_onUnhandledRejection error s"
| "zig_step s ZigMessageErrorEvent = zig_onMessageError s"

definition zig_run :: "zig_event list \<Rightarrow> jsval zig_worker" where
  "zig_run events = foldl zig_step zig_initial events"

section \<open>The run worker\<close>

record RunnerRequest =
  wasm :: "byte list"
  args :: "jsstring list option"
  runFiles :: "PlaygroundFilePayload list option"

record run_env =
  webAssemblyCompile :: "byte list \<Rightarrow> thrown + wasm_module"
  programInstantiate :: "wasm_module \<Rightarrow> thrown option"
  programStart :: "wasm_module \<Rightarrow> jsstring list \<Rightarrow> dir_contents \<Rightarrow> guest_run"
  runElapsed :: nat

definition buildArgs :: "jsstring list option \<Rightarrow> jsstring list" where
  "buildArgs given =
     (let normalized = (case given of None \<Rightarrow> [] | Some items \<Rightarrow> items)
      in lit ''main.wasm'' # normalized)"

definition instantiateProgram :: "run_env \<Rightarrow> byte list \<Rightarrow> thrown + wasm_module" where
  "instantiateProgram env bytes =
     (case webAssemblyCompile env bytes of
        Inl error \<Rightarrow> Inl error
      | Inr wasmModule \<Rightarrow>
          (case programInstantiate env wasmModule of
             Some error \<Rightarrow> Inl error
           | None \<Rightarrow> Inr wasmModule))"

definition executeProgram :: "run_env \<Rightarrow> RunnerRequest \<Rightarrow> response" where
  "executeProgram env request =
     (let argv = buildArgs (args request);
          appDirectory = hydrateAppDirectory (case runFiles request of None \<Rightarrow> [] | Some items \<Rightarrow> items)
      in case instantiateProgram env (wasm request) of
           Inl error \<Rightarrow> RunError (messageWithStack error) [] (Some (runElapsed env))
         | Inr programInstance \<Rightarrow>
             (let run = programStart env programInstance argv appDirectory
              in case startResult run of
                   Exited exitCode \<Rightarrow>
                     RunSuccess (stdoutText run) (stderrText run) exitCode (runElapsed env)
                 | Threw error \<Rightarrow>
                     RunError (messageWithStack error) (stderrText run) (Some (runElapsed env))))"

record 'r run_worker =
  isRunning :: bool
  runQueue :: "'r list"
  runPosted :: "response list"
  runInFlight :: "'r list"
  runExecutions :: "'r list"

definition run_initial :: "'r run_worker" where
  "run_initial =
     \<lparr>isRunning = False, runQueue = [], runPosted = [], runInFlight = [], runExecutions = []\<rparr>"

definition run_postMessage :: "response \<Rightarrow> 'r run_worker \<Rightarrow> 'r run_worker" where
  "run_postMessage message s = s\<lparr>runPosted := runPosted s @ [message]\<rparr>"

definition postRunError :: "jsstring \<Rightarrow> 'r run_worker \<Rightarrow> 'r run_worker" where
  "postRunError message s = run_postMessage (RunError message [] None) s"

definition handleRun_begin :: "'r \<Rightarrow> 'r run_worker \<Rightarrow> 'r run_worker" where
  "handleRun_begin request s =
     s\<lparr>isRunning := True, runInFlight := runInFlight s @ [request],
       runExecutions := runExecutions s @ [request]\<rparr>"

definition handleRun_end :: "thrown + response \<Rightarrow> 'r run_worker \<Rightarrow> 'r run_worker" where
  "handleRun_end outcome s =
     (let s1 =
        (case outcome of
           Inr response \<Rightarrow> run_postMessage response s
         | Inl error \<Rightarrow>
             postRunError (case error of
                             ErrorObject name text stack \<Rightarrow> text
                           | NonError text \<Rightarrow> text) s)
      in s1\<lparr>isRunning := False, runInFlight := tl (runInFlight s1)\<rparr>)"

definition run_processQueue :: "'r run_worker \<Rightarrow> 'r run_worker" where
  "run_processQueue s =
     (if isRunning s then s
      else (case rev (runQueue s) of
              [] \<Rightarrow> s
            | request # older \<Rightarrow> handleRun_begin request (s\<lparr>runQueue := []\<rparr>)))"

definition run_processQueue_resume :: "'r run_worker \<Rightarrow> 'r run_worker" where
  "run_processQueue_resume s = (if length (runQueue s) > 0 then run_processQueue s else s)"

definition handleRun :: "run_env \<Rightarrow> RunnerRequest \<Rightarrow> RunnerRequest run_worker \<Rightarrow> RunnerRequest run_worker" where
  "handleRun env request s =
     handleRun_end (Inr (executeProgram env request)) (handleRun_begin request s)"

definition run_onMessage :: "jsval \<Rightarrow> jsval run_worker \<Rightarrow> jsval run_worker" where
  "run_onMessage payload s =
     (if \<not> isRunnerRequest payload
      then postRunError (lit ''Invalid runner request payload'') s
      else run_processQueue (s\<lparr>runQueue := runQueue s @ [payload]\<rparr>))"

definition run_onMessageError :: "'r run_worker \<Rightarrow> 'r run_worker" where
  "run_onMessageError s = postRunError (lit ''runner-worker failed to parse incoming message'') s"

definition run_onError :: "thrown \<Rightarrow> 'r run_worker \<Rightarrow> 'r run_worker" where
  "run_onError error s =
     (if isStackOverflow error
      then postRunError
             (lit ''Program caused stack overflow - likely infinite recursion in your code'') s
      else s)"

definition run_onUnhandledRejection :: "thrown \<Rightarrow> 'r run_worker \<Rightarrow> 'r run_worker" where
  "run_onUnhandledRejection error s =
     (if isStackOverflow error
      then postRunError (lit ''Program caused stack overflow during async operation'') s
      else s)"

text \<open>The events of the run worker, as those of the compile worker.\<close>

datatype run_event =
    RunMessage jsval
  | RunFinished "thrown + response"
  | RunErrorEvent thrown
  | RunRejectionEvent thrown
  | RunMessageErrorEvent

definition run_onFinished :: "thrown + response \<Rightarrow> 'r run_worker \<Rightarrow> 'r run_worker" where
  "run_onFinished outcome s =
     (if runInFlight s = [] then s
      else run_processQueue_resume (handleRun_end outcome s))"

fun run_step :: "jsval run_worker \<Rightarrow> run_event \<Rightarrow> jsval run_worker" where
  "run_step s (RunMessage payload) = run_onMessage payload s"
| "run_step s (RunFinished outcome) = run_onFinished outcome s"
| "run_step s (RunErrorEvent error) = run_onError error s"
| "run_step s (RunRejectionEvent error) = run_onUnhandledRejection error s"
| "run_step s RunMessageErrorEvent = run_onMessageError s"

definition run_run :: "run_event list \<Rightarrow> jsval run_worker" where
  "run_run events = foldl run_step run_initial events"

section \<open>The host page's listener of compile-worker messages\<close>

text \<open>
  What \<open>handleCompileMessage\<close> sends on: the run requests it posts to the run worker and
  whether it restarts the workers. Its updates of the page's display state are left out.
\<close>

record host_effect =
  runnerRequests :: "RunnerRequest list"
  restartsWorkers :: bool

definition handleCompileMessage ::
  "bool \<Rightarrow> PlaygroundFilePayload list \<Rightarrow> response \<Rightarrow> host_effect" where
  "handleCompileMessage runnerAvailable lastCompileFiles message =
     (case message of
        CompileSuccess wasmBytes out err durationMs \<Rightarrow>
          (if \<not> runnerAvailable then \<lparr>runnerRequests = [], restartsWorkers = False\<rparr>
           else \<lparr>runnerRequests =
                   [\<lparr>wasm = wasmBytes, args = None, runFiles = Some lastCompileFiles\<rparr>],
                 restartsWorkers = False\<rparr>)
      | CompileError out err durationMs text \<Rightarrow> \<lparr>runnerRequests = [], restartsWorkers = False\<rparr>
      | FatalError text \<Rightarrow>
          \<lparr>runnerRequests = [], restartsWorkers = (text = lit ''stack-overflow'')\<rparr>
      | RunSuccess out err exitCode durationMs \<Rightarrow> \<lparr>runnerRequests = [], restartsWorkers = False\<rparr>
      | RunError text err durationMs \<Rightarrow> \<lparr>runnerRequests = [], restartsWorkers = False\<rparr>)"

section \<open>The standard-library tree\<close>

datatype tree_node = TreeFile "byte list" | TreeDir "(jsstring \<times> tree_node) list"

type_synonym tree = "(jsstring \<times> tree_node) list"

text \<open>
  What the module takes from outside: the expected version (the constant
  \<open>PLAYGROUND_ZIG_VERSION\<close> of the toolchain module), the platform's UTF-8 decoder, and
  the stack text that the engine gives a new \<open>Error\<close>.
\<close>

record stdlib_env =
  PLAYGROUND_ZIG_VERSION :: jsstring
  textDecoder_decode :: "byte list \<Rightarrow> jsstring"
  newErrorStack :: jsstring

record stdlib_state =
  stdlibVersionWarningIssued :: bool
  consoleWarnAvailable :: bool
  consoleWarnings :: "jsstring list"

record TarLocalFile =
  entryName :: jsstring
  entryFilename :: "jsstring option"
  entryTypeflag :: jsstring
  entryFileData :: "byte list"

definition STDLIB_VERSION_PATH :: "jsstring list" where
  "STDLIB_VERSION_PATH = [lit ''std'', lit ''builtin.zig'']"

definition QUOTE :: code_unit where
  "QUOTE = 0x22"

text \<open>
  The regular expression \<open>VERSION_REGEX\<close>: the literal pub, white space, the literal const,
  white space, the literal Version, optional white space, an equals sign, optional white
  space, and between two double quotes a non-empty group without a double quote. Each
  repetition is followed by a character outside its class, so the greedy match is the only
  one. A match at a position gives the group.
\<close>

definition stripLiteral :: "jsstring \<Rightarrow> jsstring \<Rightarrow> jsstring option" where
  "stripLiteral literal s = (if startsWith s literal then Some (drop (length literal) s) else None)"

definition someWhiteSpace :: "jsstring \<Rightarrow> jsstring option" where
  "someWhiteSpace s =
     (case s of
        [] \<Rightarrow> None
      | c # cs \<Rightarrow> if isWhiteSpace c then Some (dropWhile isWhiteSpace cs) else None)"

definition matchVersionAt :: "jsstring \<Rightarrow> jsstring option" where
  "matchVersionAt s =
     (case stripLiteral (lit ''pub'') s of None \<Rightarrow> None | Some s1 \<Rightarrow>
      case someWhiteSpace s1 of None \<Rightarrow> None | Some s2 \<Rightarrow>
      case stripLiteral (lit ''const'') s2 of None \<Rightarrow> None | Some s3 \<Rightarrow>
      case someWhiteSpace s3 of None \<Rightarrow> None | Some s4 \<Rightarrow>
      case stripLiteral (lit ''Version'') s4 of None \<Rightarrow> None | Some s5 \<Rightarrow>
      case stripLiteral (lit ''='') (dropWhile isWhiteSpace s5) of None \<Rightarrow> None | Some s6 \<Rightarrow>
      case stripLiteral [QUOTE] (dropWhile isWhiteSpace s6) of None \<Rightarrow> None | Some s7 \<Rightarrow>
        (let version = takeWhile (\<lambda>c. c \<noteq> QUOTE) s7;
             closing = dropWhile (\<lambda>c. c \<noteq> QUOTE) s7
         in if version = [] \<or> closing = [] then None else Some version))"

text \<open>\<open>VERSION_REGEX.exec(source)\<close>, reduced to its first group: the leftmost match.\<close>

fun VERSION_REGEX_exec :: "jsstring \<Rightarrow> jsstring option" where
  "VERSION_REGEX_exec [] = matchVersionAt []"
| "VERSION_REGEX_exec (c # cs) =
     (case matchVersionAt (c # cs) of
        Some version \<Rightarrow> Some version
      | None \<Rightarrow> VERSION_REGEX_exec cs)"

fun getTreeEntry :: "tree_node \<Rightarrow> jsstring list \<Rightarrow> tree_node option" where
  "getTreeEntry current [] = Some current"
| "getTreeEntry current (segment # rest) =
     (case current of
        TreeFile bytes \<Rightarrow> None
      | TreeDir entries \<Rightarrow>
          (case map_of entries segment of
             None \<Rightarrow> None
           | Some next \<Rightarrow> getTreeEntry next rest))"

definition extractStdlibVersion :: "stdlib_env \<Rightarrow> tree \<Rightarrow> jsstring option" where
  "extractStdlibVersion env t =
     (case getTreeEntry (TreeDir t) STDLIB_VERSION_PATH of
        Some (TreeFile bytes) \<Rightarrow> VERSION_REGEX_exec (textDecoder_decode env bytes)
      | Some (TreeDir entries) \<Rightarrow> None
      | None \<Rightarrow> None)"

definition warnOnce :: "jsstring \<Rightarrow> stdlib_state \<Rightarrow> stdlib_state" where
  "warnOnce message st =
     (if stdlibVersionWarningIssued st then st
      else (let st1 = st\<lparr>stdlibVersionWarningIssued := True\<rparr>
            in if consoleWarnAvailable st1
               then st1\<lparr>consoleWarnings := consoleWarnings st1 @ [message]\<rparr>
               else st1))"

definition VERSION_UNKNOWN_WARNING :: jsstring where
  "VERSION_UNKNOWN_WARNING =
     lit ''Unable to determine Zig stdlib version from zig.tar.gz. Continuing without strict version verification.''"

definition versionMismatchMessage :: "jsstring \<Rightarrow> jsstring \<Rightarrow> jsstring" where
  "versionMismatchMessage expected found =
     lit ''Zig stdlib archive version mismatch: expected '' @ expected @ lit '' but found '' @
     found @ lit ''. '' @
     lit ''Please replace public/zig/zig.tar.gz with the matching toolchain assets (e.g., download zig.tar.gz from the same build as zig.wasm).''"

text \<open>\<open>assertStdlibVersion\<close>: the error it throws, or the state after it returns.\<close>

definition assertStdlibVersion :: "stdlib_env \<Rightarrow> tree \<Rightarrow> stdlib_state \<Rightarrow> thrown + stdlib_state" where
  "assertStdlibVersion env t st =
     (case extractStdlibVersion env t of
        None \<Rightarrow> Inr (warnOnce VERSION_UNKNOWN_WARNING st)
      | Some version \<Rightarrow>
          if version = [] then Inr (warnOnce VERSION_UNKNOWN_WARNING st)
          else if version \<noteq> PLAYGROUND_ZIG_VERSION env
          then Inl (ErrorObject (lit ''Error'')
                      (versionMismatchMessage (PLAYGROUND_ZIG_VERSION env) version)
                      (newErrorStack env))
          else Inr st)"

text \<open>The \<open>normalizeEntryPath\<close> of the standard-library module, on a tar entry.\<close>

definition tar_normalizeEntryPath :: "TarLocalFile \<Rightarrow> jsstring" where
  "tar_normalizeEntryPath entry =
     (let chosen = (if entryName entry \<noteq> [] then entryName entry
                    else (case entryFilename entry of
                            None \<Rightarrow> []
                          | Some other \<Rightarrow> other));
          slashed = replaceBackslashes chosen
      in if startsWith slashed (lit ''./'') then drop 2 slashed else slashed)"

definition endsWith :: "jsstring \<Rightarrow> jsstring \<Rightarrow> bool" where
  "endsWith s p \<longleftrightarrow> startsWith (rev s) (rev p)"

definition isDirectoryEntry :: "TarLocalFile \<Rightarrow> bool" where
  "isDirectoryEntry entry \<longleftrightarrow> entryTypeflag entry = lit ''5'' \<or> endsWith (entryName entry) (lit ''/'')"

fun ensureTreeNode :: "tree \<Rightarrow> jsstring list \<Rightarrow> tree" where
  "ensureTreeNode current [] = current"
| "ensureTreeNode current (segment # rest) =
     (case map_of current segment of
        Some (TreeDir existing) \<Rightarrow>
          AList.update segment (TreeDir (ensureTreeNode existing rest)) current
      | Some (TreeFile bytes) \<Rightarrow>
          AList.update segment (TreeDir (ensureTreeNode [] rest)) current
      | None \<Rightarrow>
          AList.update segment (TreeDir (ensureTreeNode [] rest)) current)"

text \<open>\<open>parent.set(filename, bytes)\<close> in the node at the end of the segments.\<close>

fun setInTree :: "tree \<Rightarrow> jsstring list \<Rightarrow> jsstring \<Rightarrow> tree_node \<Rightarrow> tree" where
  "setInTree current [] filename node = AList.update filename node current"
| "setInTree current (segment # rest) filename node =
     (case map_of current segment of
        Some (TreeDir existing) \<Rightarrow>
          AList.update segment (TreeDir (setInTree existing rest filename node)) current
      | Some (TreeFile bytes) \<Rightarrow> current
      | None \<Rightarrow> current)"

text \<open>One iteration of the loop of \<open>hydrateStdlibTree\<close> over the entries of the archive.\<close>

definition stdlibEntryStep :: "tree \<Rightarrow> TarLocalFile \<Rightarrow> tree" where
  "stdlibEntryStep t entry =
     (let normalizedPath = tar_normalizeEntryPath entry
      in if normalizedPath = [] \<or> \<not> startsWith normalizedPath (lit ''lib/'') then t
         else (let relativePath = drop (length (lit ''lib/'')) normalizedPath
               in if relativePath = [] then t
                  else (let segments = toSegments relativePath
                        in if length segments = 0 then t
                           else if isDirectoryEntry entry then ensureTreeNode t segments
                           else (let parentSegments = butlast segments;
                                     filename = last segments
                                 in setInTree (ensureTreeNode t parentSegments) parentSegments
                                      filename (TreeFile (entryFileData entry))))))"

text \<open>
  \<open>hydrateStdlibTree\<close> from the entries that the archive unpacks to: the error it throws,
  or the tree and the state.
\<close>

definition hydrateStdlibTree ::
  "stdlib_env \<Rightarrow> TarLocalFile list \<Rightarrow> stdlib_state \<Rightarrow> thrown + (tree \<times> stdlib_state)" where
  "hydrateStdlibTree env entries st =
     (let t = foldl stdlibEntryStep [] entries
      in if length t = 0
         then Inl (ErrorObject (lit ''Error'')
                     (lit ''Zig stdlib archive did not contain any lib/ entries'')
                     (newErrorStack env))
         else (case assertStdlibVersion env t st of
                 Inl error \<Rightarrow> Inl error
               | Inr st' \<Rightarrow> Inr (t, st')))"

section \<open>Arrivals, faults and the invariant of the queues\<close>







section \<open>Example inputs\<close>

definition example_dir_file :: PlaygroundFilePayload where
  "example_dir_file = \<lparr>path = lit ''src'', contents = lit ''x'', readOnly = None\<rparr>"

definition example_inner_file :: PlaygroundFilePayload where
  "example_inner_file = \<lparr>path = lit ''src/main.zig'', contents = lit ''y'', readOnly = None\<rparr>"

definition example_lib_file :: PlaygroundFilePayload where
  "example_lib_file = \<lparr>path = lit ''/app/lib.zig'', contents = [0xE9], readOnly = Some True\<rparr>"

definition example_stale_file :: PlaygroundFilePayload where
  "example_stale_file = \<lparr>path = lit ''./src//main.zig'', contents = lit ''old'', readOnly = None\<rparr>"

definition example_compile_env :: "int \<Rightarrow> compile_env" where
  "example_compile_env exitCode =
     \<lparr>getZigStdlibDirectory = Inr [],
      fetchAndCompileZig = Inr (WasmModule [0, 0x61, 0x73, 0x6D]),
      zigInstantiate = (\<lambda>wasmModule. None),
      zigStart = (\<lambda>wasmModule argv appDirectory stdlibDirectory.
                    \<lparr>startResult = Exited exitCode, stdoutText = [], stderrText = lit ''diagnostics'',
                     directoryAfter = appDirectory\<rparr>),
      compileElapsed = 7\<rparr>"

definition example_compile_request :: ZigCompileRequest where
  "example_compile_request =
     \<lparr>entryPath = lit ''main.zig'',
      files = [\<lparr>path = lit ''main.zig'', contents = lit ''pub fn main() void {}'', readOnly = Some False\<rparr>],
      optimize = Some ReleaseSmall\<rparr>"

definition example_run_env :: "int \<Rightarrow> run_env" where
  "example_run_env exitCode =
     \<lparr>webAssemblyCompile = (\<lambda>bytes. Inr (WasmModule bytes)),
      programInstantiate = (\<lambda>wasmModule. None),
      programStart = (\<lambda>wasmModule argv appDirectory.
                        \<lparr>startResult = Exited exitCode, stdoutText = lit ''Hello'',
                         stderrText = [], directoryAfter = appDirectory\<rparr>),
      runElapsed = 3\<rparr>"

definition example_overflow_run_env :: run_env where
  "example_overflow_run_env =
     \<lparr>webAssemblyCompile = (\<lambda>bytes. Inr (WasmModule bytes)),
      programInstantiate = (\<lambda>wasmModule. None),
      programStart = (\<lambda>wasmModule argv appDirectory.
                        \<lparr>startResult = Threw (ErrorObject (lit ''RangeError'')
                                                 (lit ''Maximum call stack size exceeded'') []),
                         stdoutText = [], stderrText = [], directoryAfter = appDirectory\<rparr>),
      runElapsed = 3\<rparr>"

definition example_run_request :: RunnerRequest where
  "example_run_request = \<lparr>wasm = [0, 0x61, 0x73, 0x6D], args = None, runFiles = None\<rparr>"

definition example_range_error :: thrown where
  "example_range_error =
     ErrorObject (lit ''RangeError'') (lit ''Maximum call stack size exceeded'') []"

definition example_wrong_tag :: jsval where
  "example_wrong_tag =
     JObject [(lit ''type'', JString (lit ''build'')), (lit ''entryPath'', JString (lit ''main.zig'')),
              (lit ''files'', JArray [])]"

definition example_missing_files :: jsval where
  "example_missing_files =
     JObject [(lit ''type'', JString (lit ''compile'')), (lit ''entryPath'', JString (lit ''main.zig''))]"

definition example_typed_array_wasm :: jsval where
  "example_typed_array_wasm =
     JObject [(lit ''type'', JString (lit ''run'')), (lit ''wasm'', JUint8Array [0, 0x61, 0x73, 0x6D])]"

definition example_busy_worker :: "jsval zig_worker" where
  "example_busy_worker =
     \<lparr>zigModulePromise = Some (WasmModule [0, 0x61, 0x73, 0x6D]), isCompiling = True,
      compilationQueue = [], compilationCount = 4, zigPosted = [],
      zigInFlight = [JNull], zigExecutions = [JNull]\<rparr>"





definition example_builtin_source :: "jsstring \<Rightarrow> jsstring" where
  "example_builtin_source version =
     lit ''pub const Version = '' @ [QUOTE] @ version @ [QUOTE] @ lit '';''"

definition example_stdlib_env :: stdlib_env where
  "example_stdlib_env =
     \<lparr>PLAYGROUND_ZIG_VERSION = lit ''0.15.1'',
      textDecoder_decode = map ucast,
      newErrorStack = []\<rparr>"

definition example_stdlib_state :: stdlib_state where
  "example_stdlib_state =
     \<lparr>stdlibVersionWarningIssued = False, consoleWarnAvailable = True, consoleWarnings = []\<rparr>"

definition example_builtin_entry :: "jsstring \<Rightarrow> TarLocalFile" where
  "example_builtin_entry version =
     \<lparr>entryName = lit ''./lib/std/builtin.zig'', entryFilename = None, entryTypeflag = lit ''0'',
      entryFileData = textEncoder_encode (example_builtin_source version)\<rparr>"

definition example_plain_entry :: TarLocalFile where
  "example_plain_entry =
     \<lparr>entryName = lit ''lib/std/std.zig'', entryFilename = None, entryTypeflag = lit ''0'',
      entryFileData = textEncoder_encode (lit ''// std'')\<rparr>"

section \<open>Strings and path normalisation\<close>

lemma split_nonempty: "split sep s \<noteq> []"
  by (induction s) (auto split: list.splits)
lemma split_no_sep: "w \<in> set (split sep s) \<Longrightarrow> sep \<notin> set w"
  by (induction s arbitrary: w) (auto split: list.splits if_splits)
lemma split_subset: "w \<in> set (split sep s) \<Longrightarrow> set w \<subseteq> set s"
proof (induction s arbitrary: w)
  case Nil
  then show ?case by simp
next
  case (Cons c cs)
  obtain v vs where sp: "split sep cs = v # vs"
    using split_nonempty[of sep cs] by (cases "split sep cs") auto
  have "set v \<subseteq> set cs" "\<And>u. u \<in> set vs \<Longrightarrow> set u \<subseteq> set cs"
    using Cons.IH sp by auto
  with Cons.prems sp show ?case
    by (auto split: if_splits)
qed
lemma split_append_sep: "sep \<notin> set x \<Longrightarrow> split sep (x @ sep # rest) = x # split sep rest"
  by (induction x) (auto split: list.splits)
lemma split_no_sep_id: "sep \<notin> set x \<Longrightarrow> split sep x = [x]"
  by (induction x) (auto split: list.splits)
lemma split_join: "xs \<noteq> [] \<Longrightarrow> \<forall>x\<in>set xs. sep \<notin> set x \<Longrightarrow> split sep (join sep xs) = xs"
  by (induction sep xs rule: join.induct) (auto simp: split_append_sep split_no_sep_id)
lemma set_join: "c \<in> set (join sep xs) \<Longrightarrow> c = sep \<or> (\<exists>x\<in>set xs. c \<in> set x)"
  by (induction sep xs rule: join.induct) auto
lemma join_eq_Nil: "join sep xs = [] \<Longrightarrow> \<forall>x\<in>set xs. x \<noteq> [] \<Longrightarrow> xs = []"
  by (induction sep xs rule: join.induct) auto

lemma set_trim: "set (trim s) \<subseteq> set s"
  unfolding trim_def by (metis set_dropWhileD set_rev subsetI)

lemma trim_ends: "trim s = [] \<or> (\<not> isWhiteSpace (hd (trim s)) \<and> \<not> isWhiteSpace (last (trim s)))"
proof -
  define t where "t = dropWhile isWhiteSpace s"
  define v where "v = dropWhile isWhiteSpace (rev t)"
  have tv: "trim s = rev v" by (simp add: trim_def t_def v_def)
  show ?thesis
  proof (cases "v = []")
    case True then show ?thesis by (simp add: tv)
  next
    case False
    then have hv: "\<not> isWhiteSpace (hd v)" unfolding v_def by (rule hd_dropWhile)
    from False have tne: "t \<noteq> []" by (auto simp: v_def)
    then have ht: "\<not> isWhiteSpace (hd t)" unfolding t_def by (rule hd_dropWhile)
    have "last v = last (rev t)"
      unfolding v_def using tne ht
      by (intro dropWhile_last[where x = "hd t"]) (auto simp: hd_in_set)
    then have "last v = hd t" using tne by (simp add: last_rev)
    with hv ht False show ?thesis by (simp add: tv hd_rev last_rev)
  qed
qed

lemma trim_fixed:
  assumes "u = [] \<or> (\<not> isWhiteSpace (hd u) \<and> \<not> isWhiteSpace (last u))"
  shows "trim u = u"
proof (cases "u = []")
  case True
  then show ?thesis by (simp add: trim_def)
next
  case False
  with assms have h: "\<not> isWhiteSpace (hd u)" and l: "\<not> isWhiteSpace (last u)" by auto
  have 1: "dropWhile isWhiteSpace u = u"
    using h by (simp add: dropWhile_eq_self_iff)
  have 2: "dropWhile isWhiteSpace (rev u) = rev u"
    using l False by (simp add: dropWhile_eq_self_iff hd_rev)
  show ?thesis by (simp add: trim_def 1 2)
qed

lemma trim_idem: "trim (trim s) = trim s"
  using trim_ends[of s] by (rule trim_fixed)

lemma trim_all_white:
  assumes "\<forall>c\<in>set s. isWhiteSpace c"
  shows "trim s = []"
  unfolding trim_def using assms by (auto dest: set_dropWhileD)

lemma replaceBackslashes_clean: "BACKSLASH \<notin> set (replaceBackslashes s)"
  by (auto simp: replaceBackslashes_def SLASH_def BACKSLASH_def)

lemma normalizedSegments_props:
  assumes "seg \<in> set (normalizedSegments p)"
  shows "seg \<noteq> []" "seg \<noteq> lit ''.''" "seg \<noteq> lit ''..''" "SLASH \<notin> set seg"
    "BACKSLASH \<notin> set seg" "trim seg = seg"
proof -
  from assms obtain cleaned w where
    seg: "seg = trim w" and w: "w \<in> set (split SLASH cleaned)"
    and cl: "set cleaned \<subseteq> set (replaceBackslashes (trim (case p of None \<Rightarrow> [] | Some q \<Rightarrow> q)))"
    and f: "seg \<noteq> []" "seg \<noteq> lit ''.''" "seg \<noteq> lit ''..''"
    unfolding normalizedSegments_def Let_def
    by (auto split: if_splits dest!: set_dropWhileD in_set_dropD)
  show "seg \<noteq> []" "seg \<noteq> lit ''.''" "seg \<noteq> lit ''..''" by (rule f)+
  from split_no_sep[OF w] set_trim[of w] show "SLASH \<notin> set seg" by (auto simp: seg)
  from split_subset[OF w] cl replaceBackslashes_clean set_trim[of w]
  show "BACKSLASH \<notin> set seg" unfolding seg by blast
  show "trim seg = seg" by (simp add: seg trim_idem)
qed

lemma DEFAULT_segments: "split SLASH DEFAULT_ENTRY_FILENAME = [DEFAULT_ENTRY_FILENAME]"
  by (rule split_no_sep_id) (simp add: DEFAULT_ENTRY_FILENAME_def lit_def SLASH_def)

lemma normalizeEntryPath_cases:
  "(normalizedSegments p = [] \<and> normalizeEntryPath p = DEFAULT_ENTRY_FILENAME) \<or>
   (normalizedSegments p \<noteq> [] \<and> normalizeEntryPath p = join SLASH (normalizedSegments p)
      \<and> join SLASH (normalizedSegments p) \<noteq> [])"
proof (cases "normalizedSegments p = []")
  case True
  then show ?thesis by (simp add: normalizeEntryPath_def)
next
  case False
  have "join SLASH (normalizedSegments p) \<noteq> []"
    using join_eq_Nil[of SLASH "normalizedSegments p"] False normalizedSegments_props(1)
    by blast
  with False show ?thesis by (simp add: normalizeEntryPath_def)
qed

lemma split_normalizeEntryPath:
  "split SLASH (normalizeEntryPath p) =
     (if normalizedSegments p = [] then [DEFAULT_ENTRY_FILENAME] else normalizedSegments p)"
  using normalizeEntryPath_cases[of p]
  by (auto simp: DEFAULT_segments split_join normalizedSegments_props(4))


lemma DEFAULT_facts:
  "DEFAULT_ENTRY_FILENAME \<noteq> []" "DEFAULT_ENTRY_FILENAME \<noteq> lit ''.''"
  "DEFAULT_ENTRY_FILENAME \<noteq> lit ''..''" "BACKSLASH \<notin> set DEFAULT_ENTRY_FILENAME"
  "DEFAULT_ENTRY_FILENAME = lit ''main.zig''"
  by (simp_all add: DEFAULT_ENTRY_FILENAME_def lit_def BACKSLASH_def)

lemma normalizeEntryPath_nonempty: "normalizeEntryPath p \<noteq> []"
  using normalizeEntryPath_cases[of p] DEFAULT_facts(1) by auto

lemma normalizeEntryPath_segments_clean:
  "\<forall>segment \<in> set (split SLASH (normalizeEntryPath p)).
     segment \<noteq> [] \<and> segment \<noteq> lit ''.'' \<and> segment \<noteq> lit ''..''"
  using DEFAULT_facts(1,2,3) normalizedSegments_props(1,2,3)
  by (auto simp: split_normalizeEntryPath)

lemma normalizeEntryPath_relative: "\<not> startsWith (normalizeEntryPath p) (lit ''/'')"
proof
  assume "startsWith (normalizeEntryPath p) (lit ''/'')"
  then obtain r where "normalizeEntryPath p = SLASH # r"
    using normalizeEntryPath_nonempty[of p]
    by (cases "normalizeEntryPath p") (auto simp: startsWith_def lit_def SLASH_def)
  then have "[] \<in> set (split SLASH (normalizeEntryPath p))" by simp
  with normalizeEntryPath_segments_clean[of p] show False by blast
qed

lemma normalizeEntryPath_no_backslash: "BACKSLASH \<notin> set (normalizeEntryPath p)"
proof
  assume a: "BACKSLASH \<in> set (normalizeEntryPath p)"
  show False
    using normalizeEntryPath_cases[of p]
  proof (elim disjE conjE)
    assume "normalizeEntryPath p = DEFAULT_ENTRY_FILENAME"
    with a DEFAULT_facts(4) show False by simp
  next
    assume "normalizeEntryPath p = join SLASH (normalizedSegments p)"
    with a set_join[of BACKSLASH SLASH "normalizedSegments p"] normalizedSegments_props(5)
    show False by (auto simp: SLASH_def BACKSLASH_def)
  qed
qed

lemma normalizeEntryPath_None: "normalizeEntryPath None = lit ''main.zig''"
  by (simp add: normalizeEntryPath_def normalizedSegments_def replaceBackslashes_def
      startsWith_def LEGACY_APP_PREFIX_def lit_def trim_def DEFAULT_ENTRY_FILENAME_def)

lemma normalizeEntryPath_all_white:
  assumes "\<forall>c \<in> set s. isWhiteSpace c"
  shows "normalizeEntryPath (Some s) = lit ''main.zig''"
proof -
  from assms have "trim s = []" by (rule trim_all_white)
  moreover have "trim [] = []" by (simp add: trim_def)
  ultimately have "normalizedSegments (Some s) = normalizedSegments None"
    by (simp only: normalizedSegments_def option.case)
  then show ?thesis
    using normalizeEntryPath_None by (simp add: normalizeEntryPath_def)
qed

lemma normalizeEntryPath_legacy_example:
  "normalizeEntryPath (Some (lit ''/app/src/../main.zig'')) = lit ''src/main.zig''"
  by (simp add: normalizeEntryPath_def normalizedSegments_def lit_def trim_def isWhiteSpace_def
      replaceBackslashes_def startsWith_def LEGACY_APP_PREFIX_def SLASH_def BACKSLASH_def
      DEFAULT_ENTRY_FILENAME_def)

subsection \<open>Claim C3\<close>

text \<open>
  C3. For every input path (a string or \<open>undefined\<close>) the normaliser returns a non-empty
  relative path: it does not start with a slash, holds no backslash, and its segments
  between slashes are never empty, \<open>.\<close> or \<open>..\<close>. When the kept segments join to the
  empty string the result is the default entry filename \<open>main.zig\<close>; so it is for an
  input of white space only and for \<open>undefined\<close>. The path \<open>/app/src/../main.zig\<close>
  normalises to \<open>src/main.zig\<close>.
\<close>

theorem normalizeEntryPath_clean:
  "normalizeEntryPath p \<noteq> []
   \<and> \<not> startsWith (normalizeEntryPath p) (lit ''/'')
   \<and> BACKSLASH \<notin> set (normalizeEntryPath p)
   \<and> (\<forall>segment \<in> set (split SLASH (normalizeEntryPath p)).
         segment \<noteq> [] \<and> segment \<noteq> lit ''.'' \<and> segment \<noteq> lit ''..'')
   \<and> (join SLASH (normalizedSegments p) = [] \<longrightarrow> normalizeEntryPath p = lit ''main.zig'')
   \<and> ((\<forall>c \<in> set s. isWhiteSpace c) \<longrightarrow> normalizeEntryPath (Some s) = lit ''main.zig'')
   \<and> normalizeEntryPath None = lit ''main.zig''
   \<and> normalizeEntryPath (Some (lit ''/app/src/../main.zig'')) = lit ''src/main.zig''"
proof (intro conjI)
  show "normalizeEntryPath p \<noteq> []" by (rule normalizeEntryPath_nonempty)
  show "\<not> startsWith (normalizeEntryPath p) (lit ''/'')" by (rule normalizeEntryPath_relative)
  show "BACKSLASH \<notin> set (normalizeEntryPath p)" by (rule normalizeEntryPath_no_backslash)
  show "\<forall>segment \<in> set (split SLASH (normalizeEntryPath p)).
         segment \<noteq> [] \<and> segment \<noteq> lit ''.'' \<and> segment \<noteq> lit ''..''"
    by (rule normalizeEntryPath_segments_clean)
  show "join SLASH (normalizedSegments p) = [] \<longrightarrow> normalizeEntryPath p = lit ''main.zig''"
    by (simp add: normalizeEntryPath_def DEFAULT_facts(5))
  show "(\<forall>c \<in> set s. isWhiteSpace c) \<longrightarrow> normalizeEntryPath (Some s) = lit ''main.zig''"
    using normalizeEntryPath_all_white by blast
  show "normalizeEntryPath None = lit ''main.zig''" by (rule normalizeEntryPath_None)
  show "normalizeEntryPath (Some (lit ''/app/src/../main.zig'')) = lit ''src/main.zig''"
    by (rule normalizeEntryPath_legacy_example)
qed

theorem normalizeEntryPath_clean_witness:
  "list_all isWhiteSpace (lit '' '')
   \<and> join SLASH (normalizedSegments (Some (lit ''/app/./..''))) = []
   \<and> normalizeEntryPath (Some (lit ''/app/./..'')) = lit ''main.zig''
   \<and> normalizeEntryPath (Some (lit '' '')) = lit ''main.zig''
   \<and> split SLASH (normalizeEntryPath (Some (lit ''/app/./..''))) = [lit ''main.zig'']"
proof -
  have white: "\<forall>c \<in> set (lit '' ''). isWhiteSpace c"
    by (simp add: lit_def isWhiteSpace_def)
  have empty: "join SLASH (normalizedSegments (Some (lit ''/app/./..''))) = []"
    by (simp add: normalizedSegments_def lit_def trim_def isWhiteSpace_def
        replaceBackslashes_def startsWith_def LEGACY_APP_PREFIX_def SLASH_def BACKSLASH_def)
  from normalizeEntryPath_clean[of "Some (lit ''/app/./..'')" "lit '' ''"] white empty
  have r: "normalizeEntryPath (Some (lit ''/app/./..'')) = lit ''main.zig''"
    "normalizeEntryPath (Some (lit '' '')) = lit ''main.zig''"
    by blast+
  have "split SLASH (lit ''main.zig'') = [lit ''main.zig'']"
    by (simp add: lit_def SLASH_def)
  with white empty r show ?thesis by (simp add: list_all_iff)
qed

section \<open>The virtual directory tree: hydrating and reading back\<close>


lemma map_of_update_same: "map_of (AList.update k v al) k = Some v"
  by (simp add: update_conv')

lemma map_of_update_other: "k' \<noteq> k \<Longrightarrow> map_of (AList.update k v al) k' = map_of al k'"
  by (simp add: update_conv')

lemma writeSegments_Nil: "writeSegments root [] filename file = AList.update filename file root"
  by (simp add: writeSegments_def)

lemma writeSegments_Cons:
  "writeSegments root (s # rest) filename file =
     (case map_of root s of
        Some (Directory existing) \<Rightarrow>
          AList.update s (Directory (writeSegments existing rest filename file)) root
      | Some (File d r) \<Rightarrow>
          AList.update s (Directory (writeSegments [] rest filename file)) (AList.delete s root)
      | None \<Rightarrow> AList.update s (Directory (writeSegments [] rest filename file)) root)"
  by (simp add: writeSegments_def map_of_update_same split: option.splits inode.splits)

lemma read_after_write:
  "getFileAtSegments (writeSegments root parents filename (File d r)) (parents @ [filename]) = Some (File d r)"
proof (induction parents arbitrary: root)
  case Nil
  then show ?case by (simp add: writeSegments_Nil map_of_update_same)
next
  case (Cons s rest)
  then show ?case
    by (simp add: writeSegments_Cons map_of_update_same split: option.splits inode.splits)
qed

lemma write_other_name:
  "s \<noteq> t \<Longrightarrow> map_of (writeSegments root (s # rest) filename file) t = map_of root t"
  by (simp add: writeSegments_Cons map_of_update_other split: option.splits inode.splits)

lemma getFileAtSegments_empty: "getFileAtSegments [] q = None"
  by (cases q) auto

lemma read_unrelated:
  "\<not> prefix (parents @ [filename]) q \<Longrightarrow> \<not> prefix q (parents @ [filename]) \<Longrightarrow>
   getFileAtSegments (writeSegments root parents filename file) q = getFileAtSegments root q"
proof (induction parents arbitrary: root q)
  case Nil
  then obtain t qr where q: "q = t # qr" and "t \<noteq> filename" by (cases q) auto
  then show ?case by (simp add: writeSegments_Nil map_of_update_other)
next
  case (Cons s rest)
  then obtain t qr where q: "q = t # qr" by (cases q) auto
  show ?case
  proof (cases "s = t")
    case False
    then show ?thesis by (simp add: q write_other_name)
  next
    case True
    with Cons.prems q have np: "\<not> prefix (rest @ [filename]) qr" "\<not> prefix qr (rest @ [filename])"
      by auto
    then have qr: "qr \<noteq> []" by auto
    from Cons.IH[OF np] qr True show ?thesis
      by (simp add: q writeSegments_Cons map_of_update_same getFileAtSegments_empty
          split: option.splits inode.splits)
  qed
qed

lemma set_update_cases: "x \<in> set (AList.update k v al) \<Longrightarrow> x = (k, v) \<or> x \<in> set al"
  by (induction al) (auto split: if_splits)

lemma uniqueNames_update:
  assumes "uniqueNames (Directory al)" "uniqueNames v"
  shows "uniqueNames (Directory (AList.update k v al))"
proof -
  have "distinct (map fst (AList.update k v al))"
    using assms(1) by (simp add: distinct_update)
  moreover have "\<forall>x\<in>set (AList.update k v al). uniqueNames (snd x)"
    using assms set_update_cases[of _ k v al] by (fastforce simp: list_all_iff)
  ultimately show ?thesis by (simp add: list_all_iff)
qed

lemma uniqueNames_delete:
  assumes "uniqueNames (Directory al)"
  shows "uniqueNames (Directory (AList.delete k al))"
proof -
  have "distinct (map fst (AList.delete k al))"
    using assms by (simp add: distinct_delete)
  moreover have "\<forall>x\<in>set (AList.delete k al). uniqueNames (snd x)"
    using assms by (auto simp: list_all_iff AList.delete_eq)
  ultimately show ?thesis by (simp add: list_all_iff)
qed

lemma uniqueNames_lookup:
  "uniqueNames (Directory al) \<Longrightarrow> map_of al k = Some v \<Longrightarrow> uniqueNames v"
  by (induction al) (auto split: if_splits)

lemma uniqueNames_writeSegments:
  "uniqueNames (Directory root) \<Longrightarrow> uniqueNames file \<Longrightarrow>
   uniqueNames (Directory (writeSegments root parents filename file))"
proof (induction parents arbitrary: root)
  case Nil
  then show ?case by (simp add: writeSegments_Nil uniqueNames_update del: uniqueNames.simps)
next
  case (Cons s rest)
  have empty: "uniqueNames (Directory [])" by simp
  show ?case
  proof (cases "map_of root s")
    case None
    with Cons.IH[OF empty Cons.prems(2)] Cons.prems(1) show ?thesis
      by (simp add: writeSegments_Cons uniqueNames_update del: uniqueNames.simps)
  next
    case (Some node)
    show ?thesis
    proof (cases node)
      case (File d r)
      with Some Cons.IH[OF empty Cons.prems(2)] Cons.prems(1) show ?thesis
        by (simp add: writeSegments_Cons uniqueNames_update uniqueNames_delete del: uniqueNames.simps)
    next
      case (Directory existing)
      with Some Cons.prems(1) have "uniqueNames (Directory existing)"
        using uniqueNames_lookup by blast
      from Cons.IH[OF this Cons.prems(2)] Some Directory Cons.prems(1) show ?thesis
        by (simp add: writeSegments_Cons uniqueNames_update del: uniqueNames.simps)
    qed
  qed
qed



lemma DEFAULT_trim: "trim DEFAULT_ENTRY_FILENAME = DEFAULT_ENTRY_FILENAME"
  by (rule trim_fixed) (simp add: DEFAULT_ENTRY_FILENAME_def lit_def isWhiteSpace_def)

lemma filter_map_trim_id:
  assumes "\<forall>x\<in>set xs. x \<noteq> [] \<and> x \<noteq> lit ''.'' \<and> trim x = x"
  shows "filter (\<lambda>segment. length segment > 0 \<and> segment \<noteq> lit ''.'') (map trim xs) = xs"
  using assms by (induction xs) auto

lemma toSegments_normalizeEntryPath:
  "toSegments (normalizeEntryPath p) =
     (if normalizedSegments p = [] then [DEFAULT_ENTRY_FILENAME] else normalizedSegments p)"
proof (cases "normalizedSegments p = []")
  case True
  have "\<forall>x\<in>set [DEFAULT_ENTRY_FILENAME]. x \<noteq> [] \<and> x \<noteq> lit ''.'' \<and> trim x = x"
    by (simp add: DEFAULT_trim) (simp add: DEFAULT_ENTRY_FILENAME_def lit_def)
  from filter_map_trim_id[OF this] True show ?thesis
    by (simp add: toSegments_def split_normalizeEntryPath del: One_nat_def)
next
  case False
  have "\<forall>x\<in>set (normalizedSegments p). x \<noteq> [] \<and> x \<noteq> lit ''.'' \<and> trim x = x"
    using normalizedSegments_props(1,2,6) by blast
  from filter_map_trim_id[OF this] False show ?thesis
    by (simp add: toSegments_def split_normalizeEntryPath)
qed

lemma entrySegments_nonempty: "entrySegments e \<noteq> []"
  by (simp add: entrySegments_def toSegments_normalizeEntryPath)

lemma normalizeEntryPath_join: "normalizeEntryPath p = join SLASH (toSegments (normalizeEntryPath p))"
  using normalizeEntryPath_cases[of p] by (auto simp: toSegments_normalizeEntryPath)

lemma entrySegments_inj:
  "entrySegments a = entrySegments b \<longleftrightarrow>
   normalizeEntryPath (Some (path a)) = normalizeEntryPath (Some (path b))"
  unfolding entrySegments_def
  by (metis normalizeEntryPath_join)


lemma hydrateAppDirectory_foldl: "hydrateAppDirectory fileList = foldl hydrateStep [] fileList"
proof -
  have "(\<lambda>directory file.
              (let relativePath = normalizeEntryPath (Some (path file))
               in if relativePath = [] then directory
                  else writeFile directory relativePath (contents file) (Boolean (readOnly file))))
        = hydrateStep"
    by (intro ext)
      (simp add: hydrateStep_def writeFile_def writeSegments_def Let_def normalizeEntryPath_nonempty
        entrySegments_def[symmetric] entrySegments_nonempty)
  then show ?thesis by (simp add: hydrateAppDirectory_def)
qed

lemma hydrateStep_read_same:
  "getFileAtSegments (hydrateStep d e) (entrySegments e) =
     Some (File (textEncoder_encode (contents e)) (Boolean (readOnly e)))"
  using read_after_write[of d "butlast (entrySegments e)" "last (entrySegments e)"]
  by (simp add: hydrateStep_def entrySegments_nonempty)

lemma hydrateStep_read_other:
  assumes "\<not> prefix (entrySegments y) q" "\<not> prefix q (entrySegments y)"
  shows "getFileAtSegments (hydrateStep d y) q = getFileAtSegments d q"
  using read_unrelated[of "butlast (entrySegments y)" "last (entrySegments y)" q d] assms
  by (simp add: hydrateStep_def entrySegments_nonempty)

lemma foldl_hydrateStep_keeps:
  assumes "\<forall>y\<in>set ys. \<not> prefix (entrySegments y) q \<and> \<not> prefix q (entrySegments y)"
  shows "getFileAtSegments (foldl hydrateStep d ys) q = getFileAtSegments d q"
  using assms by (induction ys arbitrary: d) (simp_all add: hydrateStep_read_other)

lemma hydrate_last_write_wins:
  assumes "\<forall>y\<in>set ys. \<not> prefix (entrySegments y) (entrySegments e)
                    \<and> \<not> prefix (entrySegments e) (entrySegments y)"
  shows "getFileAtPath (hydrateAppDirectory (xs @ e # ys)) (normalizeEntryPath (Some (path e))) =
           Some (File (textEncoder_encode (contents e)) (Boolean (readOnly e)))"
  using foldl_hydrateStep_keeps[OF assms]
  by (simp add: getFileAtPath_def hydrateAppDirectory_foldl entrySegments_def[symmetric]
      hydrateStep_read_same)

lemma uniqueNames_hydrateStep:
  "uniqueNames (Directory d) \<Longrightarrow> uniqueNames (Directory (hydrateStep d e))"
  unfolding hydrateStep_def by (rule uniqueNames_writeSegments) simp_all

lemma uniqueNames_hydrate: "uniqueNames (Directory (hydrateAppDirectory fileList))"
proof -
  have "uniqueNames (Directory d) \<Longrightarrow> uniqueNames (Directory (foldl hydrateStep d fileList))" for d
    by (induction fileList arbitrary: d)
      (simp_all add: uniqueNames_hydrateStep del: uniqueNames.simps)
  then show ?thesis by (simp add: hydrateAppDirectory_foldl)
qed

lemma ensureDirectory_replaces_file:
  "map_of current segment = Some (File d r) \<Longrightarrow>
   map_of (ensureDirectory current (segment # rest)) segment = Some (Directory (ensureDirectory [] rest))"
  by (simp add: map_of_update_same)

lemma uniqueNames_ensureDirectory:
  "uniqueNames (Directory current) \<Longrightarrow> uniqueNames (Directory (ensureDirectory current segments))"
proof (induction segments arbitrary: current)
  case Nil
  then show ?case by simp
next
  case (Cons s rest)
  have empty: "uniqueNames (Directory [])" by simp
  show ?case
  proof (cases "map_of current s")
    case None
    with Cons.IH[OF empty] Cons.prems show ?thesis
      by (simp add: uniqueNames_update del: uniqueNames.simps)
  next
    case (Some node)
    show ?thesis
    proof (cases node)
      case (File d r)
      with Some Cons.IH[OF empty] Cons.prems show ?thesis
        by (simp add: uniqueNames_update uniqueNames_delete del: uniqueNames.simps)
    next
      case (Directory existing)
      with Some Cons.prems have "uniqueNames (Directory existing)"
        using uniqueNames_lookup by blast
      from Cons.IH[OF this] Some Directory Cons.prems show ?thesis
        by (simp add: uniqueNames_update del: uniqueNames.simps)
    qed
  qed
qed

lemma not_prefix_of_distinct:
  "a \<noteq> b \<Longrightarrow> \<not> strict_prefix a b \<Longrightarrow> \<not> prefix a b"
  by (simp add: strict_prefix_def)

subsection \<open>Claim C4\<close>

text \<open>
  C4 as stated fails: two entries with the distinct normalised paths \<open>src\<close> and
  \<open>src/main.zig\<close> are hydrated in this order; the second write replaces the file
  \<open>src\<close> by a directory, and reading \<open>src\<close> back finds no file.
\<close>

theorem hydrate_read_back_counterexample:
  "normalizeEntryPath (Some (path example_dir_file)) \<noteq> normalizeEntryPath (Some (path example_inner_file))
   \<and> getFileAtPath (hydrateAppDirectory [example_dir_file, example_inner_file])
        (normalizeEntryPath (Some (path example_dir_file)))
      \<noteq> Some (File (textEncoder_encode (contents example_dir_file)) (Boolean (readOnly example_dir_file)))"
  unfolding example_dir_file_def example_inner_file_def by code_simp

text \<open>
  C4, amended. For every list of file entries whose normalised paths are pairwise
  distinct and where no entry's segments are a proper prefix of another entry's segments,
  hydrating the directory and reading back an entry's normalised path yields a file whose
  bytes are the UTF-8 encoding of the entry's contents (and whose flag is the entry's).
\<close>

theorem hydrate_read_back:
  assumes "distinct (map (\<lambda>entry. normalizeEntryPath (Some (path entry))) fileList)"
    and "\<forall>a\<in>set fileList. \<forall>b\<in>set fileList. \<not> strict_prefix (entrySegments a) (entrySegments b)"
    and "file \<in> set fileList"
  shows "getFileAtPath (hydrateAppDirectory fileList) (normalizeEntryPath (Some (path file))) =
           Some (File (textEncoder_encode (contents file)) (Boolean (readOnly file)))"
proof -
  from assms(3) obtain before after where split: "fileList = before @ file # after"
    by (auto simp: in_set_conv_decomp)
  have "\<forall>y\<in>set after. \<not> prefix (entrySegments y) (entrySegments file)
                     \<and> \<not> prefix (entrySegments file) (entrySegments y)"
  proof
    fix y assume y: "y \<in> set after"
    with assms(1) split
    have "normalizeEntryPath (Some (path y)) \<noteq> normalizeEntryPath (Some (path file))"
      by (fastforce simp: image_iff)
    then have ne: "entrySegments y \<noteq> entrySegments file" "entrySegments file \<noteq> entrySegments y"
      by (simp_all add: entrySegments_inj)
    from y split assms(2)
    have "\<not> strict_prefix (entrySegments y) (entrySegments file)"
      "\<not> strict_prefix (entrySegments file) (entrySegments y)"
      by auto
    with ne show "\<not> prefix (entrySegments y) (entrySegments file)
                     \<and> \<not> prefix (entrySegments file) (entrySegments y)"
      by (simp add: not_prefix_of_distinct)
  qed
  then show ?thesis unfolding split by (rule hydrate_last_write_wins)
qed

theorem hydrate_read_back_witness:
  "distinct (map (\<lambda>entry. normalizeEntryPath (Some (path entry))) [example_inner_file, example_lib_file])
   \<and> \<not> strict_prefix (entrySegments example_inner_file) (entrySegments example_lib_file)
   \<and> \<not> strict_prefix (entrySegments example_lib_file) (entrySegments example_inner_file)
   \<and> example_lib_file \<in> set [example_inner_file, example_lib_file]
   \<and> getFileAtPath (hydrateAppDirectory [example_inner_file, example_lib_file]) (lit ''lib.zig'')
       = Some (File [0xC3, 0xA9] True)"
proof -
  have h1: "distinct (map (\<lambda>entry. normalizeEntryPath (Some (path entry))) [example_inner_file, example_lib_file])"
    unfolding example_inner_file_def example_lib_file_def by code_simp
  have s: "\<not> strict_prefix (entrySegments example_inner_file) (entrySegments example_lib_file)"
    "\<not> strict_prefix (entrySegments example_lib_file) (entrySegments example_inner_file)"
    unfolding example_inner_file_def example_lib_file_def by code_simp+
  then have h2: "\<forall>a\<in>set [example_inner_file, example_lib_file]. \<forall>b\<in>set [example_inner_file, example_lib_file].
        \<not> strict_prefix (entrySegments a) (entrySegments b)"
    by simp
  have h3: "example_lib_file \<in> set [example_inner_file, example_lib_file]" by simp
  have n: "normalizeEntryPath (Some (path example_lib_file)) = lit ''lib.zig''"
    unfolding example_lib_file_def by code_simp
  have c: "textEncoder_encode (contents example_lib_file) = [0xC3, 0xA9]"
    "Boolean (readOnly example_lib_file) = True"
    unfolding example_lib_file_def by code_simp+
  from hydrate_read_back[OF h1 h2 h3] h1 s h3 show ?thesis
    by (simp only: n c simp_thms)
qed

subsection \<open>Claim C5\<close>

text \<open>
  C5 as stated fails: two entries normalise to \<open>src/main.zig\<close> and a later entry
  \<open>src/main.zig/util.zig\<close> turns that name into a directory, so that after hydration
  no file exists at the shared path.
\<close>

theorem hydrate_last_wins_counterexample:
  "normalizeEntryPath (Some (path example_stale_file)) = normalizeEntryPath (Some (path example_inner_file))
   \<and> normalizeEntryPath (Some (path example_lib_file)) \<noteq> normalizeEntryPath (Some (path example_inner_file))
   \<and> getFileAtPath
        (hydrateAppDirectory [example_stale_file, example_inner_file,
           \<lparr>path = lit ''src/main.zig/util.zig'', contents = lit ''z'', readOnly = None\<rparr>])
        (normalizeEntryPath (Some (path example_inner_file))) = None"
  unfolding example_stale_file_def example_inner_file_def example_lib_file_def by code_simp

text \<open>
  C5, amended. When no entry after an entry normalises to the same path, and no later
  entry's segments are a proper prefix or a proper extension of its segments, then after
  hydration the file at its normalised path holds the UTF-8 encoding of that entry's
  contents, whatever came before it (last write wins). In every hydrated tree each
  directory holds each name once, so a file and a directory never share a name; a segment
  of \<open>ensureDirectory\<close> that meets a file replaces it by a fresh directory, and
  \<open>ensureDirectory\<close> keeps names unique.
\<close>

theorem hydrate_last_write_wins_unique:
  "((\<forall>later\<in>set after.
        normalizeEntryPath (Some (path later)) \<noteq> normalizeEntryPath (Some (path file))
        \<and> \<not> strict_prefix (entrySegments later) (entrySegments file)
        \<and> \<not> strict_prefix (entrySegments file) (entrySegments later))
     \<longrightarrow> getFileAtPath (hydrateAppDirectory (before @ file # after))
           (normalizeEntryPath (Some (path file))) =
         Some (File (textEncoder_encode (contents file)) (Boolean (readOnly file))))
   \<and> uniqueNames (Directory (hydrateAppDirectory fileList))
   \<and> (map_of current segment = Some (File fileData fileReadonly) \<longrightarrow>
        map_of (ensureDirectory current (segment # rest)) segment =
          Some (Directory (ensureDirectory [] rest)))
   \<and> (uniqueNames (Directory current) \<longrightarrow>
        uniqueNames (Directory (ensureDirectory current segments)))"
proof (intro conjI impI)
  assume a: "\<forall>later\<in>set after.
        normalizeEntryPath (Some (path later)) \<noteq> normalizeEntryPath (Some (path file))
        \<and> \<not> strict_prefix (entrySegments later) (entrySegments file)
        \<and> \<not> strict_prefix (entrySegments file) (entrySegments later)"
  have "\<forall>y\<in>set after. \<not> prefix (entrySegments y) (entrySegments file)
                     \<and> \<not> prefix (entrySegments file) (entrySegments y)"
  proof
    fix y assume "y \<in> set after"
    with a have "entrySegments y \<noteq> entrySegments file"
      "\<not> strict_prefix (entrySegments y) (entrySegments file)"
      "\<not> strict_prefix (entrySegments file) (entrySegments y)"
      by (simp_all add: entrySegments_inj)
    then show "\<not> prefix (entrySegments y) (entrySegments file)
                     \<and> \<not> prefix (entrySegments file) (entrySegments y)"
      by (simp add: strict_prefix_def)
  qed
  then show "getFileAtPath (hydrateAppDirectory (before @ file # after))
           (normalizeEntryPath (Some (path file))) =
         Some (File (textEncoder_encode (contents file)) (Boolean (readOnly file)))"
    by (rule hydrate_last_write_wins)
next
  show "uniqueNames (Directory (hydrateAppDirectory fileList))" by (rule uniqueNames_hydrate)
next
  assume "map_of current segment = Some (File fileData fileReadonly)"
  then show "map_of (ensureDirectory current (segment # rest)) segment =
          Some (Directory (ensureDirectory [] rest))"
    by (rule ensureDirectory_replaces_file)
next
  assume "uniqueNames (Directory current)"
  then show "uniqueNames (Directory (ensureDirectory current segments))"
    by (rule uniqueNames_ensureDirectory)
qed

theorem hydrate_last_write_wins_unique_witness:
  "normalizeEntryPath (Some (path example_lib_file)) \<noteq> normalizeEntryPath (Some (path example_inner_file))
   \<and> \<not> strict_prefix (entrySegments example_lib_file) (entrySegments example_inner_file)
   \<and> \<not> strict_prefix (entrySegments example_inner_file) (entrySegments example_lib_file)
   \<and> normalizeEntryPath (Some (path example_stale_file)) = normalizeEntryPath (Some (path example_inner_file))
   \<and> getFileAtPath (hydrateAppDirectory [example_stale_file, example_inner_file, example_lib_file])
        (lit ''src/main.zig'') = Some (File [0x79] False)
   \<and> map_of [(lit ''src'', File [0x78] False)] (lit ''src'') = Some (File [0x78] False)
   \<and> map_of (ensureDirectory [(lit ''src'', File [0x78] False)] [lit ''src'', lit ''deep'']) (lit ''src'')
       = Some (Directory [(lit ''deep'', Directory [])])
   \<and> uniqueNames (Directory [(lit ''src'', File [0x78] False)])
   \<and> uniqueNames (Directory (ensureDirectory [(lit ''src'', File [0x78] False)] [lit ''src'', lit ''deep'']))"
proof -
  have h: "normalizeEntryPath (Some (path example_lib_file)) \<noteq> normalizeEntryPath (Some (path example_inner_file))"
    "\<not> strict_prefix (entrySegments example_lib_file) (entrySegments example_inner_file)"
    "\<not> strict_prefix (entrySegments example_inner_file) (entrySegments example_lib_file)"
    unfolding example_inner_file_def example_lib_file_def by code_simp+
  then have h': "\<forall>later\<in>set [example_lib_file].
        normalizeEntryPath (Some (path later)) \<noteq> normalizeEntryPath (Some (path example_inner_file))
        \<and> \<not> strict_prefix (entrySegments later) (entrySegments example_inner_file)
        \<and> \<not> strict_prefix (entrySegments example_inner_file) (entrySegments later)"
    by simp
  have same: "normalizeEntryPath (Some (path example_stale_file)) = normalizeEntryPath (Some (path example_inner_file))"
    unfolding example_inner_file_def example_stale_file_def by code_simp
  have m: "map_of [(lit ''src'', File [0x78] False)] (lit ''src'') = Some (File [0x78] False)"
    by simp
  have u: "uniqueNames (Directory [(lit ''src'', File [0x78] False)])" by simp
  have n: "normalizeEntryPath (Some (path example_inner_file)) = lit ''src/main.zig''"
    "textEncoder_encode (contents example_inner_file) = [0x79]"
    "Boolean (readOnly example_inner_file) = False"
    unfolding example_inner_file_def by code_simp+
  have e: "ensureDirectory [] [lit ''deep''] = [(lit ''deep'', Directory [])]"
    by simp
  note t = hydrate_last_write_wins_unique[of "[example_lib_file]" example_inner_file
      "[example_stale_file]" "[]" "[(lit ''src'', File [0x78] False)]" "lit ''src''" "[0x78]" False
      "[lit ''deep'']" "[lit ''src'', lit ''deep'']"]
  from t h' same m u have
    "getFileAtPath (hydrateAppDirectory ([example_stale_file] @ example_inner_file # [example_lib_file]))
        (normalizeEntryPath (Some (path example_inner_file))) =
      Some (File (textEncoder_encode (contents example_inner_file)) (Boolean (readOnly example_inner_file)))"
    "map_of (ensureDirectory [(lit ''src'', File [0x78] False)] [lit ''src'', lit ''deep'']) (lit ''src'')
       = Some (Directory (ensureDirectory [] [lit ''deep'']))"
    "uniqueNames (Directory (ensureDirectory [(lit ''src'', File [0x78] False)] [lit ''src'', lit ''deep'']))"
    by blast+
  with h same m u show ?thesis
    by (simp only: n e append.simps simp_thms)
qed

section \<open>The compile worker: exit codes and arguments\<close>

lemma numberToString_1: "numberToString 1 = lit ''1''"
  by code_simp

lemma exit_message_distinct:
  "lit ''Zig exited with code '' @ numberToString exitCode \<noteq> lit ''Compiled artifact missing at main.wasm''"
  by (simp add: lit_def)

lemma extractWasmArtifact_None:
  "getFileAtPath appDirectory EMIT_WASM_PATH = None \<Longrightarrow> extractWasmArtifact appDirectory = None"
  by (simp add: extractWasmArtifact_def)

lemma runCompilation_exited:
  assumes "getZigStdlibDirectory env = Inr stdlibDirectory"
    and "instantiateZig env cache = (Inr zigInstance, cache')"
    and "zigStart env zigInstance
           (buildZigArgs (normalizeEntryPath (Some (entryPath request))) (optimize request))
           (hydrateAppDirectory (files request)) stdlibDirectory = run"
    and "startResult run = Exited exitCode"
  shows "runCompilation env cache request =
           (if exitCode \<noteq> 0
            then (CompileError (stdoutText run) (stderrText run) (compileElapsed env)
                    (lit ''Zig exited with code '' @ numberToString exitCode), cache')
            else (case extractWasmArtifact (directoryAfter run) of
                    None \<Rightarrow> (CompileError (stdoutText run) (stderrText run) (compileElapsed env)
                               (lit ''Compiled artifact missing at main.wasm''), cache')
                  | Some wasmBuffer \<Rightarrow>
                      (CompileSuccess wasmBuffer (stdoutText run) (stderrText run)
                         (compileElapsed env), cache')))"
  using assms
  by (simp add: runCompilation_def Let_def createCompileErrorResponse_def split: option.splits)

lemma zigPosted_handleCompile:
  "zigPosted (handleCompile env request s) =
     zigPosted s @ [fst (runCompilation env (zigModulePromise (handleCompile_begin request s)) request)]"
  by (simp add: handleCompile_def handleCompile_begin_def handleCompile_end_def zig_postMessage_def
      Let_def split: prod.splits)

lemma example_env_facts:
  "getZigStdlibDirectory (example_compile_env c) = Inr []"
  "instantiateZig (example_compile_env c) None = (Inr (WasmModule [0, 0x61, 0x73, 0x6D]), Some (WasmModule [0, 0x61, 0x73, 0x6D]))"
  "startResult (zigStart (example_compile_env c) m a d l) = Exited c"
  "stdoutText (zigStart (example_compile_env c) m a d l) = []"
  "stderrText (zigStart (example_compile_env c) m a d l) = lit ''diagnostics''"
  "directoryAfter (zigStart (example_compile_env c) m a d l) = d"
  "compileElapsed (example_compile_env c) = 7"
  by (simp_all add: example_compile_env_def instantiateZig_def loadZigModule_def)

lemma zig_initial_begin_cache:
  "zigModulePromise (handleCompile_begin request (zig_initial :: 'r zig_worker)) = None"
  by (simp add: handleCompile_begin_def zig_initial_def Let_def)

lemma example_no_artifact:
  "getFileAtPath (hydrateAppDirectory (files example_compile_request)) (lit ''main.wasm'') = None"
  unfolding example_compile_request_def by code_simp

subsection \<open>Claim C2\<close>

text \<open>
  C2. When the compiler was instantiated and its start returned an exit code: if the code
  is not zero, the worker posts exactly one message for the request, a compile-error whose
  message is \<open>Zig exited with code N\<close> with the decimal exit code and whose stdout and
  stderr are the captured ones; the host page's listener posts no run request for it. If
  the code is zero and no file is at \<open>main.wasm\<close> in the workspace directory, the worker
  posts a compile-error with the message \<open>Compiled artifact missing at main.wasm\<close>, which
  differs from every exit-code message.
\<close>

theorem nonzero_exit_is_compile_error:
  assumes "getZigStdlibDirectory env = Inr stdlibDirectory"
    and "instantiateZig env (zigModulePromise (handleCompile_begin request s)) = (Inr zigInstance, cache')"
    and "zigStart env zigInstance
           (buildZigArgs (normalizeEntryPath (Some (entryPath request))) (optimize request))
           (hydrateAppDirectory (files request)) stdlibDirectory = run"
    and "startResult run = Exited exitCode"
  shows
    "(exitCode \<noteq> 0 \<longrightarrow>
        zigPosted (handleCompile env request s) =
          zigPosted s @ [CompileError (stdoutText run) (stderrText run) (compileElapsed env)
                           (lit ''Zig exited with code '' @ numberToString exitCode)]
        \<and> runnerRequests (handleCompileMessage runnerAvailable lastCompileFiles
             (CompileError (stdoutText run) (stderrText run) (compileElapsed env)
                (lit ''Zig exited with code '' @ numberToString exitCode))) = [])
     \<and> (exitCode = 0 \<and> getFileAtPath (directoryAfter run) (lit ''main.wasm'') = None \<longrightarrow>
        zigPosted (handleCompile env request s) =
          zigPosted s @ [CompileError (stdoutText run) (stderrText run) (compileElapsed env)
                           (lit ''Compiled artifact missing at main.wasm'')]
        \<and> runnerRequests (handleCompileMessage runnerAvailable lastCompileFiles
             (CompileError (stdoutText run) (stderrText run) (compileElapsed env)
                (lit ''Compiled artifact missing at main.wasm''))) = [])
     \<and> lit ''Zig exited with code '' @ numberToString exitCode
         \<noteq> lit ''Compiled artifact missing at main.wasm''"
proof (intro conjI impI)
  note r = runCompilation_exited[OF assms]
  {
    assume "exitCode \<noteq> 0"
    with r show "zigPosted (handleCompile env request s) =
          zigPosted s @ [CompileError (stdoutText run) (stderrText run) (compileElapsed env)
                           (lit ''Zig exited with code '' @ numberToString exitCode)]"
      by (simp add: zigPosted_handleCompile)
  }
  {
    assume "exitCode = 0 \<and> getFileAtPath (directoryAfter run) (lit ''main.wasm'') = None"
    with r show "zigPosted (handleCompile env request s) =
          zigPosted s @ [CompileError (stdoutText run) (stderrText run) (compileElapsed env)
                           (lit ''Compiled artifact missing at main.wasm'')]"
      by (simp add: zigPosted_handleCompile extractWasmArtifact_None EMIT_WASM_PATH_def)
  }
  show "runnerRequests (handleCompileMessage runnerAvailable lastCompileFiles
             (CompileError (stdoutText run) (stderrText run) (compileElapsed env)
                (lit ''Zig exited with code '' @ numberToString exitCode))) = []"
    by (simp add: handleCompileMessage_def)
  show "runnerRequests (handleCompileMessage runnerAvailable lastCompileFiles
             (CompileError (stdoutText run) (stderrText run) (compileElapsed env)
                (lit ''Compiled artifact missing at main.wasm''))) = []"
    by (simp add: handleCompileMessage_def)
  show "lit ''Zig exited with code '' @ numberToString exitCode
         \<noteq> lit ''Compiled artifact missing at main.wasm''"
    by (rule exit_message_distinct)
qed

theorem nonzero_exit_is_compile_error_witness:
  "zigPosted (handleCompile (example_compile_env 1) example_compile_request zig_initial) =
     [CompileError [] (lit ''diagnostics'') 7 (lit ''Zig exited with code 1'')]
   \<and> zigPosted (handleCompile (example_compile_env 0) example_compile_request zig_initial) =
     [CompileError [] (lit ''diagnostics'') 7 (lit ''Compiled artifact missing at main.wasm'')]"
proof -
  have m: "lit ''Zig exited with code '' @ numberToString 1 = lit ''Zig exited with code 1''"
    by (simp add: numberToString_1) (simp add: lit_def)
  have p: "zigPosted (zig_initial :: ZigCompileRequest zig_worker) = []"
    by (simp add: zig_initial_def)
  note a = nonzero_exit_is_compile_error[where env = "example_compile_env 1"
      and request = example_compile_request and s = zig_initial and exitCode = 1,
      OF example_env_facts(1) _ refl example_env_facts(3)]
  note b = nonzero_exit_is_compile_error[where env = "example_compile_env 0"
      and request = example_compile_request and s = zig_initial and exitCode = 0,
      OF example_env_facts(1) _ refl example_env_facts(3)]
  have a': "zigPosted (handleCompile (example_compile_env 1) example_compile_request zig_initial) =
     [CompileError [] (lit ''diagnostics'') 7 (lit ''Zig exited with code 1'')]"
    using a[of "WasmModule [0, 0x61, 0x73, 0x6D]" "Some (WasmModule [0, 0x61, 0x73, 0x6D])"]
    by (simp add: zig_initial_begin_cache example_env_facts m p)
  have b': "zigPosted (handleCompile (example_compile_env 0) example_compile_request zig_initial) =
     [CompileError [] (lit ''diagnostics'') 7 (lit ''Compiled artifact missing at main.wasm'')]"
    using b[of "WasmModule [0, 0x61, 0x73, 0x6D]" "Some (WasmModule [0, 0x61, 0x73, 0x6D])"]
    by (simp add: zig_initial_begin_cache example_env_facts example_no_artifact p)
  from a' b' show ?thesis by simp
qed

subsection \<open>Claim C10\<close>

text \<open>
  C10. \<open>buildZigArgs\<close> returns the fixed vector \<open>zig.wasm build-exe entryPath -fno-llvm
  -fno-lld -fno-ubsan-rt -fno-entry\<close> whatever the optimize value is, and two requests that
  differ only in \<open>optimize\<close> get the same response and leave the same module cache.
\<close>

theorem optimize_has_no_effect:
  "buildZigArgs entry mode =
     [lit ''zig.wasm'', lit ''build-exe'', entry, lit ''-fno-llvm'', lit ''-fno-lld'',
      lit ''-fno-ubsan-rt'', lit ''-fno-entry'']
   \<and> buildZigArgs entry mode = buildZigArgs entry mode'
   \<and> runCompilation env cache (request\<lparr>optimize := mode\<rparr>) =
       runCompilation env cache (request\<lparr>optimize := mode'\<rparr>)"
  by (simp add: buildZigArgs_def runCompilation_def Let_def split: sum.splits prod.splits)

section \<open>The run worker: exit codes\<close>

lemma runPosted_handleRun:
  "runPosted (handleRun env request s) = runPosted s @ [executeProgram env request]"
  by (simp add: handleRun_def handleRun_begin_def handleRun_end_def run_postMessage_def)

lemma executeProgram_exited:
  assumes "instantiateProgram env (wasm request) = Inr programInstance"
    and "programStart env programInstance (buildArgs (args request))
           (hydrateAppDirectory (case runFiles request of None \<Rightarrow> [] | Some items \<Rightarrow> items)) = run"
    and "startResult run = Exited exitCode"
  shows "executeProgram env request =
           RunSuccess (stdoutText run) (stderrText run) exitCode (runElapsed env)"
  using assms by (simp add: executeProgram_def Let_def)

lemma executeProgram_error_iff:
  "(\<exists>message err durationMs. executeProgram env request = RunError message err durationMs) \<longleftrightarrow>
   (\<exists>error. instantiateProgram env (wasm request) = Inl error) \<or>
   (\<exists>programInstance error.
      instantiateProgram env (wasm request) = Inr programInstance \<and>
      startResult (programStart env programInstance (buildArgs (args request))
        (hydrateAppDirectory (case runFiles request of None \<Rightarrow> [] | Some items \<Rightarrow> items))) = Threw error)"
  by (auto simp: executeProgram_def Let_def split: sum.splits start_result.splits)

subsection \<open>Claim C6\<close>

text \<open>
  C6. When the program of a run request is instantiated and its start returns an exit
  code, \<open>executeProgram\<close> returns, and \<open>handleRun\<close> posts, a run-success response with
  that exit code and the captured output, zero or not; this is never an error response.
  \<open>executeProgram\<close> returns a run-error exactly when the instantiation or the start threw.
\<close>

theorem nonzero_exit_is_run_success:
  assumes "instantiateProgram env (wasm request) = Inr programInstance"
    and "programStart env programInstance (buildArgs (args request))
           (hydrateAppDirectory (case runFiles request of None \<Rightarrow> [] | Some items \<Rightarrow> items)) = run"
    and "startResult run = Exited exitCode"
  shows "executeProgram env request =
           RunSuccess (stdoutText run) (stderrText run) exitCode (runElapsed env)
         \<and> runPosted (handleRun env request s) =
             runPosted s @ [RunSuccess (stdoutText run) (stderrText run) exitCode (runElapsed env)]
         \<and> \<not> isErrorResponse (executeProgram env request)
         \<and> ((\<exists>message err durationMs. executeProgram env' request' = RunError message err durationMs) \<longleftrightarrow>
             (\<exists>error. instantiateProgram env' (wasm request') = Inl error) \<or>
             (\<exists>inst error.
                instantiateProgram env' (wasm request') = Inr inst \<and>
                startResult (programStart env' inst (buildArgs (args request'))
                  (hydrateAppDirectory (case runFiles request' of None \<Rightarrow> [] | Some items \<Rightarrow> items)))
                  = Threw error))"
  using executeProgram_exited[OF assms] executeProgram_error_iff[of env' request']
  by (simp add: runPosted_handleRun)

theorem nonzero_exit_is_run_success_witness:
  "instantiateProgram (example_run_env 3) (wasm example_run_request) = Inr (WasmModule [0, 0x61, 0x73, 0x6D])
   \<and> startResult (programStart (example_run_env 3) (WasmModule [0, 0x61, 0x73, 0x6D])
         (buildArgs (args example_run_request)) []) = Exited 3
   \<and> executeProgram (example_run_env 3) example_run_request = RunSuccess (lit ''Hello'') [] 3 3
   \<and> runPosted (handleRun (example_run_env 3) example_run_request run_initial) =
        [RunSuccess (lit ''Hello'') [] 3 3]"
proof -
  have i: "instantiateProgram (example_run_env 3) (wasm example_run_request) = Inr (WasmModule [0, 0x61, 0x73, 0x6D])"
    by (simp add: instantiateProgram_def example_run_env_def example_run_request_def)
  have h: "hydrateAppDirectory (case runFiles example_run_request of None \<Rightarrow> [] | Some items \<Rightarrow> items) = []"
    by (simp add: example_run_request_def hydrateAppDirectory_def)
  have st: "startResult (programStart (example_run_env 3) (WasmModule [0, 0x61, 0x73, 0x6D])
         (buildArgs (args example_run_request)) []) = Exited 3"
    by (simp add: example_run_env_def)
  have p: "runPosted (run_initial :: RunnerRequest run_worker) = []"
    by (simp add: run_initial_def)
  from nonzero_exit_is_run_success[where env = "example_run_env 3" and request = example_run_request
      and s = run_initial and exitCode = 3, OF i refl] st h
  have "executeProgram (example_run_env 3) example_run_request = RunSuccess (lit ''Hello'') [] 3 3"
    "runPosted (handleRun (example_run_env 3) example_run_request run_initial) =
        [RunSuccess (lit ''Hello'') [] 3 3]"
    by (simp_all add: example_run_env_def p)
  with i st show ?thesis by simp
qed

section \<open>Malformed messages\<close>

subsection \<open>Claim C7\<close>

text \<open>
  C7. A message that the guard of the compile worker rejects is answered by exactly one
  compile-error response and changes nothing else; a message that the guard of the run
  worker rejects is answered by exactly one run-error response. The guard of the compile
  worker rejects exactly the values that are falsy, not objects, have another \<open>type\<close> than
  \<open>compile\<close>, whose \<open>files\<close> is not an array or whose \<open>entryPath\<close> is not a string; the
  guard of the run worker rejects exactly the values that are falsy, not objects, have
  another \<open>type\<close> than \<open>run\<close> or whose \<open>wasm\<close> is not an \<open>ArrayBuffer\<close>.
\<close>

theorem malformed_message_gets_error_response:
  "(\<not> isCompileRequest payload \<longrightarrow>
      zig_onMessage payload s =
        s\<lparr>zigPosted := zigPosted s @
             [CompileError [] [] 0 (lit ''Invalid message for zig-worker (expected compile request)'')]\<rparr>)
   \<and> (\<not> isRunnerRequest payload \<longrightarrow>
      run_onMessage payload r =
        r\<lparr>runPosted := runPosted r @ [RunError (lit ''Invalid runner request payload'') [] None]\<rparr>)
   \<and> (\<not> isCompileRequest payload \<longleftrightarrow>
        \<not> truthy payload \<or> \<not> typeofObject payload
        \<or> getProperty payload (lit ''type'') \<noteq> JString (lit ''compile'')
        \<or> \<not> isArray (getProperty payload (lit ''files''))
        \<or> \<not> isString (getProperty payload (lit ''entryPath'')))
   \<and> (\<not> isRunnerRequest payload \<longleftrightarrow>
        \<not> truthy payload \<or> \<not> typeofObject payload
        \<or> getProperty payload (lit ''type'') \<noteq> JString (lit ''run'')
        \<or> \<not> isArrayBuffer (getProperty payload (lit ''wasm'')))
   \<and> isErrorResponse (CompileError [] [] 0 (lit ''Invalid message for zig-worker (expected compile request)''))
   \<and> isErrorResponse (RunError (lit ''Invalid runner request payload'') [] None)"
  by (auto simp: zig_onMessage_def run_onMessage_def postCompileError_def postRunError_def
      zig_postMessage_def run_postMessage_def createCompileErrorResponse_def
      isCompileRequest_def isRunnerRequest_def)

theorem malformed_message_gets_error_response_witness:
  "\<not> isCompileRequest example_wrong_tag
   \<and> \<not> isCompileRequest example_missing_files
   \<and> \<not> isRunnerRequest example_typed_array_wasm
   \<and> zigPosted (zig_onMessage example_missing_files zig_initial) =
       [CompileError [] [] 0 (lit ''Invalid message for zig-worker (expected compile request)'')]
   \<and> zigPosted (zig_onMessage example_wrong_tag zig_initial) =
       [CompileError [] [] 0 (lit ''Invalid message for zig-worker (expected compile request)'')]
   \<and> runPosted (run_onMessage example_typed_array_wasm run_initial) =
       [RunError (lit ''Invalid runner request payload'') [] None]"
proof -
  have a: "\<not> isCompileRequest example_wrong_tag"
    unfolding example_wrong_tag_def by code_simp
  have b: "\<not> isCompileRequest example_missing_files"
    unfolding example_missing_files_def by code_simp
  have c: "\<not> isRunnerRequest example_typed_array_wasm"
    unfolding example_typed_array_wasm_def by code_simp
  have z: "zigPosted (zig_initial :: jsval zig_worker) = []" by (simp add: zig_initial_def)
  have r: "runPosted (run_initial :: jsval run_worker) = []" by (simp add: run_initial_def)
  from malformed_message_gets_error_response[of example_wrong_tag zig_initial run_initial] a
  have 1: "zigPosted (zig_onMessage example_wrong_tag zig_initial) =
       [CompileError [] [] 0 (lit ''Invalid message for zig-worker (expected compile request)'')]"
    by (simp add: z)
  from malformed_message_gets_error_response[of example_missing_files zig_initial run_initial] b
  have 2: "zigPosted (zig_onMessage example_missing_files zig_initial) =
       [CompileError [] [] 0 (lit ''Invalid message for zig-worker (expected compile request)'')]"
    by (simp add: z)
  from malformed_message_gets_error_response[of example_typed_array_wasm zig_initial run_initial] c
  have 3: "runPosted (run_onMessage example_typed_array_wasm run_initial) =
       [RunError (lit ''Invalid runner request payload'') [] None]"
    by (simp add: r)
  from a b c 1 2 3 show ?thesis by simp
qed

section \<open>Stack exhaustion\<close>

lemma isStackOverflow_ErrorObject:
  "isStackOverflow (ErrorObject name message stack) \<longleftrightarrow>
     js_includes message (lit ''recursion'') \<or> js_includes message (lit ''call stack'') \<or>
     name = lit ''RangeError'' \<or> name = lit ''InternalError''"
  by (simp add: isStackOverflow_def)

lemma zig_onError_overflow:
  assumes "isStackOverflow error"
  shows "zig_onError error s =
           s\<lparr>zigModulePromise := None, compilationCount := 0, isCompiling := False,
             zigPosted := zigPosted s @ [CompileError [] [] 0 GLOBAL_STACK_OVERFLOW_MESSAGE,
                                         FatalError (lit ''stack-overflow'')]\<rparr>"
  using assms
  by (simp add: zig_onError_def postCompileError_def zig_postMessage_def
      createCompileErrorResponse_def Let_def)

lemma zig_onUnhandledRejection_overflow:
  assumes "isStackOverflow error"
  shows "zig_onUnhandledRejection error s =
           s\<lparr>zigModulePromise := None, compilationCount := 0, isCompiling := False,
             zigPosted := zigPosted s @
               [CompileError [] [] 0
                  (lit ''Compiler encountered a recursion error during async operation''),
                FatalError (lit ''stack-overflow'')]\<rparr>"
  using assms
  by (simp add: zig_onUnhandledRejection_def postCompileError_def zig_postMessage_def
      createCompileErrorResponse_def Let_def)

lemma handleCompile_end_overflow:
  assumes "isStackOverflow error"
  shows "handleCompile_end (Inl error) s =
           s\<lparr>zigModulePromise := None, compilationCount := 0, isCompiling := False,
             zigInFlight := tl (zigInFlight s),
             zigPosted := zigPosted s @
               [FatalError (lit ''stack-overflow''),
                CompileError [] [] 0 COMPILER_STACK_OVERFLOW_MESSAGE]\<rparr>"
  using assms
  by (simp add: handleCompile_end_def postCompileError_def zig_postMessage_def
      createCompileErrorResponse_def Let_def)

lemma run_onError_overflow:
  assumes "isStackOverflow error"
  shows "run_onError error r =
           r\<lparr>runPosted := runPosted r @
               [RunError (lit ''Program caused stack overflow - likely infinite recursion in your code'')
                  [] None]\<rparr>"
    and "run_onUnhandledRejection error r =
           r\<lparr>runPosted := runPosted r @
               [RunError (lit ''Program caused stack overflow during async operation'') [] None]\<rparr>"
  using assms
  by (simp_all add: run_onError_def run_onUnhandledRejection_def postRunError_def
      run_postMessage_def)

lemma example_range_error_overflow: "isStackOverflow example_range_error"
  by (simp add: example_range_error_def isStackOverflow_def)

subsection \<open>Claim C8\<close>

text \<open>
  C8 as stated fails for the run pipeline: a \<open>RangeError\<close> that reaches the run worker's
  \<open>error\<close> or \<open>unhandledrejection\<close> listener, or that the program's start throws inside
  \<open>executeProgram\<close>, is answered by a run-error; the run worker posts no fatal-error
  message.
\<close>

theorem stack_overflow_run_counterexample:
  "isStackOverflow example_range_error
   \<and> filter isFatalError (runPosted (run_onError example_range_error (run_initial :: jsval run_worker))) = []
   \<and> filter isFatalError
       (runPosted (run_onUnhandledRejection example_range_error (run_initial :: jsval run_worker))) = []
   \<and> filter isFatalError
       (runPosted (handleRun example_overflow_run_env example_run_request run_initial)) = []"
proof -
  have e: "executeProgram example_overflow_run_env example_run_request =
      RunError (messageWithStack example_range_error) [] (Some 3)"
    by (simp add: executeProgram_def instantiateProgram_def example_overflow_run_env_def
        example_run_request_def example_range_error_def Let_def)
  show ?thesis
    using example_range_error_overflow
    by (simp add: run_onError_overflow runPosted_handleRun e run_initial_def)
qed

text \<open>
  C8, amended. An error is stack-exhaustion-shaped when it is an \<open>Error\<close> whose message
  contains \<open>recursion\<close> or \<open>call stack\<close> or whose name is \<open>RangeError\<close> or
  \<open>InternalError\<close>. When such an error reaches a fault path of the compile worker (its
  \<open>error\<close> listener, its \<open>unhandledrejection\<close> listener or the catch block of
  \<open>handleCompile\<close>), the worker posts one compile-error diagnostic and exactly one
  fatal-error message \<open>stack-overflow\<close>, clears the cached compiler module and resets the
  compilation counter, so that the next load fetches and compiles the module again. When it
  reaches a listener of the run worker, that worker posts exactly one run-error message and
  no fatal-error.
\<close>

theorem stack_overflow_fault_paths:
  "(isStackOverflow (ErrorObject name message stack) \<longleftrightarrow>
      js_includes message (lit ''recursion'') \<or> js_includes message (lit ''call stack'') \<or>
      name = lit ''RangeError'' \<or> name = lit ''InternalError'')
   \<and> (isStackOverflow error \<longrightarrow>
        zigPosted (zig_onError error s) =
          zigPosted s @ [CompileError [] [] 0 GLOBAL_STACK_OVERFLOW_MESSAGE,
                         FatalError (lit ''stack-overflow'')]
        \<and> zigModulePromise (zig_onError error s) = None
        \<and> compilationCount (zig_onError error s) = 0
        \<and> zigPosted (zig_onUnhandledRejection error s) =
          zigPosted s @ [CompileError [] [] 0
                           (lit ''Compiler encountered a recursion error during async operation''),
                         FatalError (lit ''stack-overflow'')]
        \<and> zigModulePromise (zig_onUnhandledRejection error s) = None
        \<and> compilationCount (zig_onUnhandledRejection error s) = 0
        \<and> zigPosted (handleCompile_end (Inl error) s) =
          zigPosted s @ [FatalError (lit ''stack-overflow''),
                         CompileError [] [] 0 COMPILER_STACK_OVERFLOW_MESSAGE]
        \<and> zigModulePromise (handleCompile_end (Inl error) s) = None
        \<and> compilationCount (handleCompile_end (Inl error) s) = 0
        \<and> length (filter isFatalError (drop (length (zigPosted s)) (zigPosted (zig_onError error s)))) = 1
        \<and> length (filter isFatalError
             (drop (length (zigPosted s)) (zigPosted (zig_onUnhandledRejection error s)))) = 1
        \<and> length (filter isFatalError
             (drop (length (zigPosted s)) (zigPosted (handleCompile_end (Inl error) s)))) = 1
        \<and> fst (loadZigModule env (zigModulePromise (zig_onError error s))) = fetchAndCompileZig env
        \<and> runPosted (run_onError error r) =
          runPosted r @ [RunError (lit ''Program caused stack overflow - likely infinite recursion in your code'')
                           [] None]
        \<and> runPosted (run_onUnhandledRejection error r) =
          runPosted r @ [RunError (lit ''Program caused stack overflow during async operation'') [] None])"
proof (intro conjI impI)
  show "isStackOverflow (ErrorObject name message stack) \<longleftrightarrow>
      js_includes message (lit ''recursion'') \<or> js_includes message (lit ''call stack'') \<or>
      name = lit ''RangeError'' \<or> name = lit ''InternalError''"
    by (rule isStackOverflow_ErrorObject)
next
  assume a: "isStackOverflow error"
  note z = zig_onError_overflow[OF a, of s] zig_onUnhandledRejection_overflow[OF a, of s]
    handleCompile_end_overflow[OF a, of s] run_onError_overflow[OF a, of r]
  show "zigPosted (zig_onError error s) =
          zigPosted s @ [CompileError [] [] 0 GLOBAL_STACK_OVERFLOW_MESSAGE,
                         FatalError (lit ''stack-overflow'')]"
    "zigModulePromise (zig_onError error s) = None"
    "compilationCount (zig_onError error s) = 0"
    "zigPosted (zig_onUnhandledRejection error s) =
          zigPosted s @ [CompileError [] [] 0
                           (lit ''Compiler encountered a recursion error during async operation''),
                         FatalError (lit ''stack-overflow'')]"
    "zigModulePromise (zig_onUnhandledRejection error s) = None"
    "compilationCount (zig_onUnhandledRejection error s) = 0"
    "zigPosted (handleCompile_end (Inl error) s) =
          zigPosted s @ [FatalError (lit ''stack-overflow''),
                         CompileError [] [] 0 COMPILER_STACK_OVERFLOW_MESSAGE]"
    "zigModulePromise (handleCompile_end (Inl error) s) = None"
    "compilationCount (handleCompile_end (Inl error) s) = 0"
    "length (filter isFatalError (drop (length (zigPosted s)) (zigPosted (zig_onError error s)))) = 1"
    "length (filter isFatalError
             (drop (length (zigPosted s)) (zigPosted (zig_onUnhandledRejection error s)))) = 1"
    "length (filter isFatalError
             (drop (length (zigPosted s)) (zigPosted (handleCompile_end (Inl error) s)))) = 1"
    "runPosted (run_onError error r) =
          runPosted r @ [RunError (lit ''Program caused stack overflow - likely infinite recursion in your code'')
                           [] None]"
    "runPosted (run_onUnhandledRejection error r) =
          runPosted r @ [RunError (lit ''Program caused stack overflow during async operation'') [] None]"
    by (simp_all add: z)
  show "fst (loadZigModule env (zigModulePromise (zig_onError error s))) = fetchAndCompileZig env"
    by (simp add: z loadZigModule_def split: sum.splits)
qed

theorem stack_overflow_fault_paths_witness:
  "isStackOverflow example_range_error
   \<and> zigModulePromise example_busy_worker = Some (WasmModule [0, 0x61, 0x73, 0x6D])
   \<and> compilationCount example_busy_worker = 4
   \<and> zigPosted (zig_onError example_range_error example_busy_worker) =
        [CompileError [] [] 0 GLOBAL_STACK_OVERFLOW_MESSAGE, FatalError (lit ''stack-overflow'')]
   \<and> zigPosted (handleCompile_end (Inl example_range_error) example_busy_worker) =
        [FatalError (lit ''stack-overflow''), CompileError [] [] 0 COMPILER_STACK_OVERFLOW_MESSAGE]
   \<and> zigModulePromise (handleCompile_end (Inl example_range_error) example_busy_worker) = None
   \<and> compilationCount (handleCompile_end (Inl example_range_error) example_busy_worker) = 0
   \<and> zigModulePromise (zig_onError example_range_error example_busy_worker) = None
   \<and> compilationCount (zig_onError example_range_error example_busy_worker) = 0
   \<and> runPosted (run_onError example_range_error (run_initial :: jsval run_worker)) =
        [RunError (lit ''Program caused stack overflow - likely infinite recursion in your code'') [] None]"
proof -
  have p: "zigPosted example_busy_worker = []"
    "zigModulePromise example_busy_worker = Some (WasmModule [0, 0x61, 0x73, 0x6D])"
    "compilationCount example_busy_worker = 4"
    by (simp_all add: example_busy_worker_def)
  have q: "runPosted (run_initial :: jsval run_worker) = []" by (simp add: run_initial_def)
  from stack_overflow_fault_paths[of "lit ''RangeError''" "lit ''Maximum call stack size exceeded''" "[]"
      example_range_error example_busy_worker _ "run_initial :: jsval run_worker"]
    example_range_error_overflow p q
  show ?thesis by simp
qed

text \<open>
  An error that the compiler's start throws inside \<open>runCompilation\<close> does not reach these
  fault paths: the catch block of \<open>runCompilation\<close> turns it into a compile-error response,
  whatever its shape, and the module cache stays.
\<close>

lemma runCompilation_swallows_throw:
  assumes "getZigStdlibDirectory env = Inr stdlibDirectory"
    and "instantiateZig env cache = (Inr zigInstance, cache')"
    and "zigStart env zigInstance
           (buildZigArgs (normalizeEntryPath (Some (entryPath request))) (optimize request))
           (hydrateAppDirectory (files request)) stdlibDirectory = run"
    and "startResult run = Threw error"
  shows "runCompilation env cache request =
           (CompileError (stdoutText run) (stderrText run) (compileElapsed env)
              (messageWithStack error), cache')"
  using assms by (simp add: runCompilation_def Let_def createCompileErrorResponse_def)

section \<open>The request queues\<close>

subsection \<open>The queue of the compile worker\<close>




lemma zig_processQueue_empty: "compilationQueue s = [] \<Longrightarrow> zig_processQueue s = s"
  by (simp add: zig_processQueue_def)























lemma zig_run_snoc: "zig_run (events @ [event]) = zig_step (zig_run events) event"
  by (simp add: zig_run_def)

subsection \<open>The queue of the run worker\<close>




lemma run_processQueue_empty: "runQueue s = [] \<Longrightarrow> run_processQueue s = s"
  by (simp add: run_processQueue_def)



















lemma run_run_snoc: "run_run (events @ [event]) = run_step (run_run events) event"
  by (simp add: run_run_def)





subsection \<open>Claim C1\<close>




section \<open>The version check of the standard library\<close>

lemma matchVersionAt_nonempty: "matchVersionAt s = Some version \<Longrightarrow> version \<noteq> []"
  by (auto simp: matchVersionAt_def Let_def split: option.splits if_splits)

lemma VERSION_REGEX_exec_nonempty: "VERSION_REGEX_exec s = Some version \<Longrightarrow> version \<noteq> []"
  by (induction s) (auto simp: matchVersionAt_nonempty split: option.splits)

lemma extractStdlibVersion_nonempty: "extractStdlibVersion env t = Some version \<Longrightarrow> version \<noteq> []"
  by (auto simp: extractStdlibVersion_def VERSION_REGEX_exec_nonempty
      split: option.splits tree_node.splits)

lemma assertStdlibVersion_mismatch:
  assumes "extractStdlibVersion env t = Some version" "version \<noteq> PLAYGROUND_ZIG_VERSION env"
  shows "assertStdlibVersion env t st =
           Inl (ErrorObject (lit ''Error'')
                  (versionMismatchMessage (PLAYGROUND_ZIG_VERSION env) version) (newErrorStack env))"
  using assms extractStdlibVersion_nonempty[OF assms(1)]
  by (simp add: assertStdlibVersion_def)

lemma assertStdlibVersion_match:
  assumes "extractStdlibVersion env t = Some version" "version = PLAYGROUND_ZIG_VERSION env"
  shows "assertStdlibVersion env t st = Inr st"
  using assms extractStdlibVersion_nonempty[OF assms(1)]
  by (simp add: assertStdlibVersion_def)

lemma assertStdlibVersion_unknown:
  assumes "extractStdlibVersion env t = None"
  shows "assertStdlibVersion env t st = Inr (warnOnce VERSION_UNKNOWN_WARNING st)"
  using assms by (simp add: assertStdlibVersion_def)

lemma hydrateStdlibTree_nonempty:
  assumes "foldl stdlibEntryStep [] entries = t" "t \<noteq> []"
  shows "hydrateStdlibTree env entries st =
           (case assertStdlibVersion env t st of
              Inl error \<Rightarrow> Inl error
            | Inr st' \<Rightarrow> Inr (t, st'))"
  using assms by (simp add: hydrateStdlibTree_def Let_def)

lemma warnOnce_first:
  assumes "\<not> stdlibVersionWarningIssued st"
  shows "stdlibVersionWarningIssued (warnOnce message st)"
    "consoleWarnings (warnOnce message st) =
       (if consoleWarnAvailable st then consoleWarnings st @ [message] else consoleWarnings st)"
  using assms by (simp_all add: warnOnce_def Let_def)

lemma warnOnce_again: "stdlibVersionWarningIssued st \<Longrightarrow> warnOnce message st = st"
  by (simp add: warnOnce_def)

lemma warnOnce_twice: "warnOnce message' (warnOnce message st) = warnOnce message st"
  by (cases "stdlibVersionWarningIssued st") (simp_all add: warnOnce_again warnOnce_first)

lemma example_mismatch_tree:
  "foldl stdlibEntryStep [] [example_plain_entry, example_builtin_entry (lit ''0.14.0'')] =
     [(lit ''std'', TreeDir [(lit ''std.zig'', TreeFile (textEncoder_encode (lit ''// std''))),
        (lit ''builtin.zig'', TreeFile (textEncoder_encode (example_builtin_source (lit ''0.14.0''))))])]"
  unfolding example_plain_entry_def example_builtin_entry_def example_builtin_source_def
  by code_simp

lemma example_plain_tree:
  "foldl stdlibEntryStep [] [example_plain_entry] =
     [(lit ''std'', TreeDir [(lit ''std.zig'', TreeFile (textEncoder_encode (lit ''// std'')))])]"
  unfolding example_plain_entry_def by code_simp

lemma example_mismatch_version:
  "extractStdlibVersion example_stdlib_env
     [(lit ''std'', TreeDir [(lit ''std.zig'', TreeFile (textEncoder_encode (lit ''// std''))),
        (lit ''builtin.zig'', TreeFile (textEncoder_encode (example_builtin_source (lit ''0.14.0''))))])]
   = Some (lit ''0.14.0'')"
  unfolding example_stdlib_env_def example_builtin_source_def by code_simp

lemma example_plain_version:
  "extractStdlibVersion example_stdlib_env
     [(lit ''std'', TreeDir [(lit ''std.zig'', TreeFile (textEncoder_encode (lit ''// std'')))])] = None"
  unfolding example_stdlib_env_def by code_simp

subsection \<open>Claim C9\<close>

text \<open>
  C9. When a version string is extracted from \<open>std/builtin.zig\<close> of the hydrated tree and
  differs from the expected version, \<open>assertStdlibVersion\<close> throws, and so does
  \<open>hydrateStdlibTree\<close> for a non-empty tree. When no version string is found, both
  return normally and \<open>warnOnce\<close> is called: the first call sets the flag and, where the
  console is there, logs the warning once; a call with the flag set changes nothing, so a
  second warning is never logged.
\<close>

theorem stdlib_version_check:
  "(extractStdlibVersion env t = Some version \<and> version \<noteq> PLAYGROUND_ZIG_VERSION env \<longrightarrow>
      assertStdlibVersion env t st =
        Inl (ErrorObject (lit ''Error'')
               (versionMismatchMessage (PLAYGROUND_ZIG_VERSION env) version) (newErrorStack env))
      \<and> (foldl stdlibEntryStep [] entries = t \<and> t \<noteq> [] \<longrightarrow>
           hydrateStdlibTree env entries st =
             Inl (ErrorObject (lit ''Error'')
                    (versionMismatchMessage (PLAYGROUND_ZIG_VERSION env) version) (newErrorStack env))))
   \<and> (extractStdlibVersion env t = None \<longrightarrow>
      assertStdlibVersion env t st = Inr (warnOnce VERSION_UNKNOWN_WARNING st)
      \<and> (foldl stdlibEntryStep [] entries = t \<and> t \<noteq> [] \<longrightarrow>
           hydrateStdlibTree env entries st = Inr (t, warnOnce VERSION_UNKNOWN_WARNING st)))
   \<and> (\<not> stdlibVersionWarningIssued st \<and> consoleWarnAvailable st \<longrightarrow>
        consoleWarnings (warnOnce message st) = consoleWarnings st @ [message]
        \<and> stdlibVersionWarningIssued (warnOnce message st))
   \<and> (stdlibVersionWarningIssued st \<longrightarrow> warnOnce message st = st)
   \<and> warnOnce message' (warnOnce message st) = warnOnce message st"
proof (intro conjI impI)
  assume a: "extractStdlibVersion env t = Some version \<and> version \<noteq> PLAYGROUND_ZIG_VERSION env"
  then show m: "assertStdlibVersion env t st =
        Inl (ErrorObject (lit ''Error'')
               (versionMismatchMessage (PLAYGROUND_ZIG_VERSION env) version) (newErrorStack env))"
    by (simp add: assertStdlibVersion_mismatch)
  assume "foldl stdlibEntryStep [] entries = t \<and> t \<noteq> []"
  then show "hydrateStdlibTree env entries st =
             Inl (ErrorObject (lit ''Error'')
                    (versionMismatchMessage (PLAYGROUND_ZIG_VERSION env) version) (newErrorStack env))"
    using hydrateStdlibTree_nonempty[of entries t env st] m by simp
next
  assume a: "extractStdlibVersion env t = None"
  then show u: "assertStdlibVersion env t st = Inr (warnOnce VERSION_UNKNOWN_WARNING st)"
    by (rule assertStdlibVersion_unknown)
  assume "foldl stdlibEntryStep [] entries = t \<and> t \<noteq> []"
  then show "hydrateStdlibTree env entries st = Inr (t, warnOnce VERSION_UNKNOWN_WARNING st)"
    using hydrateStdlibTree_nonempty[of entries t env st] u by simp
next
  assume "\<not> stdlibVersionWarningIssued st \<and> consoleWarnAvailable st"
  then show "consoleWarnings (warnOnce message st) = consoleWarnings st @ [message]"
    "stdlibVersionWarningIssued (warnOnce message st)"
    by (simp_all add: warnOnce_first)
next
  assume "stdlibVersionWarningIssued st"
  then show "warnOnce message st = st" by (rule warnOnce_again)
next
  show "warnOnce message' (warnOnce message st) = warnOnce message st" by (rule warnOnce_twice)
qed

theorem stdlib_version_check_witness:
  "extractStdlibVersion example_stdlib_env
     (foldl stdlibEntryStep [] [example_plain_entry, example_builtin_entry (lit ''0.14.0'')])
     = Some (lit ''0.14.0'')
   \<and> lit ''0.14.0'' \<noteq> PLAYGROUND_ZIG_VERSION example_stdlib_env
   \<and> hydrateStdlibTree example_stdlib_env [example_plain_entry, example_builtin_entry (lit ''0.14.0'')]
       example_stdlib_state =
       Inl (ErrorObject (lit ''Error'') (versionMismatchMessage (lit ''0.15.1'') (lit ''0.14.0'')) [])
   \<and> extractStdlibVersion example_stdlib_env (foldl stdlibEntryStep [] [example_plain_entry]) = None
   \<and> hydrateStdlibTree example_stdlib_env [example_plain_entry] example_stdlib_state =
       Inr (foldl stdlibEntryStep [] [example_plain_entry],
            \<lparr>stdlibVersionWarningIssued = True, consoleWarnAvailable = True,
             consoleWarnings = [VERSION_UNKNOWN_WARNING]\<rparr>)
   \<and> warnOnce VERSION_UNKNOWN_WARNING (warnOnce VERSION_UNKNOWN_WARNING example_stdlib_state) =
       \<lparr>stdlibVersionWarningIssued = True, consoleWarnAvailable = True,
        consoleWarnings = [VERSION_UNKNOWN_WARNING]\<rparr>"
proof -
  have v1: "extractStdlibVersion example_stdlib_env
     (foldl stdlibEntryStep [] [example_plain_entry, example_builtin_entry (lit ''0.14.0'')])
     = Some (lit ''0.14.0'')"
    by (simp only: example_mismatch_tree example_mismatch_version)
  have ne: "lit ''0.14.0'' \<noteq> PLAYGROUND_ZIG_VERSION example_stdlib_env"
    by (simp add: example_stdlib_env_def lit_def)
  have t1: "foldl stdlibEntryStep [] [example_plain_entry, example_builtin_entry (lit ''0.14.0'')] \<noteq> []"
    by (simp only: example_mismatch_tree) simp
  have v2: "extractStdlibVersion example_stdlib_env (foldl stdlibEntryStep [] [example_plain_entry]) = None"
    by (simp only: example_plain_tree example_plain_version)
  have t2: "foldl stdlibEntryStep [] [example_plain_entry] \<noteq> []"
    by (simp only: example_plain_tree) simp
  have w: "warnOnce VERSION_UNKNOWN_WARNING example_stdlib_state =
       \<lparr>stdlibVersionWarningIssued = True, consoleWarnAvailable = True,
        consoleWarnings = [VERSION_UNKNOWN_WARNING]\<rparr>"
    by (simp add: warnOnce_def example_stdlib_state_def)
  have e: "PLAYGROUND_ZIG_VERSION example_stdlib_env = lit ''0.15.1''"
    "newErrorStack example_stdlib_env = []"
    by (simp_all add: example_stdlib_env_def)
  note a = stdlib_version_check[of example_stdlib_env
      "foldl stdlibEntryStep [] [example_plain_entry, example_builtin_entry (lit ''0.14.0'')]"
      "lit ''0.14.0''" example_stdlib_state
      "[example_plain_entry, example_builtin_entry (lit ''0.14.0'')]"
      VERSION_UNKNOWN_WARNING VERSION_UNKNOWN_WARNING]
  note b = stdlib_version_check[of example_stdlib_env
      "foldl stdlibEntryStep [] [example_plain_entry]"
      "lit ''0.14.0''" example_stdlib_state "[example_plain_entry]"
      VERSION_UNKNOWN_WARNING VERSION_UNKNOWN_WARNING]
  from a v1 ne t1 have 1:
    "hydrateStdlibTree example_stdlib_env [example_plain_entry, example_builtin_entry (lit ''0.14.0'')]
       example_stdlib_state =
       Inl (ErrorObject (lit ''Error'') (versionMismatchMessage (lit ''0.15.1'') (lit ''0.14.0'')) [])"
    unfolding e by blast
  from b v2 t2 have 2:
    "hydrateStdlibTree example_stdlib_env [example_plain_entry] example_stdlib_state =
       Inr (foldl stdlibEntryStep [] [example_plain_entry],
            warnOnce VERSION_UNKNOWN_WARNING example_stdlib_state)"
    by blast
  from a have 3:
    "warnOnce VERSION_UNKNOWN_WARNING (warnOnce VERSION_UNKNOWN_WARNING example_stdlib_state) =
       warnOnce VERSION_UNKNOWN_WARNING example_stdlib_state"
    by blast
  from v1 ne 1 v2 2 3 show ?thesis unfolding w by simp
qed

end
